theory Spec2Isabelle
  imports
    Main
    "HOL-Library.Log_Nat"
    "HOL-Library.Char_ord"
    "HOL-Library.List_Lexorder"
    "HOL-Library.AList"
begin

section \<open>JavaScript values\<close>

text \<open>
  The payloads and identity records of the library are plain JavaScript objects
  (\<^verbatim>\<open>data: any\<close>, \<^verbatim>\<open>AuthResult\<close>). They are embedded as a datatype of the
  values the code inspects: \<^verbatim>\<open>undefined\<close>, \<^verbatim>\<open>null\<close>, booleans, integer-valued
  numbers, \<^verbatim>\<open>NaN\<close>, strings and plain objects. An object is an association list
  from property names to values, in insertion order; a property that is absent reads
  as \<^verbatim>\<open>undefined\<close>, and a list that binds a name twice stands for the object of
  its first bindings. Numbers that are not integers, and integers beyond the range in
  which JavaScript prints and parses them digit by digit (magnitude \<open>10 ^ 21\<close>), are
  outside the model.
\<close>

datatype jsval =
    JUndefined
  | JNull
  | JBool bool
  | JNum int
  | JNaN
  | JStr string
  | JObj "(string \<times> jsval) list"

text \<open>Truthiness, as tested by \<^verbatim>\<open>if (v)\<close> and \<^verbatim>\<open>!v\<close>.\<close>

fun truthy :: "jsval \<Rightarrow> bool" where
  "truthy JUndefined = False"
| "truthy JNull = False"
| "truthy (JBool b) = b"
| "truthy (JNum n) = (n \<noteq> 0)"
| "truthy JNaN = False"
| "truthy (JStr s) = (s \<noteq> [])"
| "truthy (JObj kvs) = True"

text \<open>Property read \<^verbatim>\<open>data[key]\<close> and \<^verbatim>\<open>Object.keys(data)\<close>.\<close>

fun getProp :: "jsval \<Rightarrow> string \<Rightarrow> jsval" where
  "getProp (JObj kvs) k = (case map_of kvs k of Some v \<Rightarrow> v | None \<Rightarrow> JUndefined)"
| "getProp v k = JUndefined"

declare getProp.simps [simp del]

definition objectKeys :: "(string \<times> jsval) list \<Rightarrow> string list" where
  "objectKeys kvs = remdups (map fst kvs)"

text \<open>Decimal rendering of a number (\<^verbatim>\<open>Number.prototype.toString\<close> on integers).\<close>

definition digit_char :: "nat \<Rightarrow> char" where
  "digit_char d = ''0123456789'' ! d"

function show_nat :: "nat \<Rightarrow> string" where
  "n < 10 \<Longrightarrow> show_nat n = [digit_char n]"
| "\<not> n < 10 \<Longrightarrow> show_nat n = show_nat (n div 10) @ [digit_char (n mod 10)]"
  by (atomize_elim, auto)
termination
  by (relation "measure id") auto

definition show_int :: "int \<Rightarrow> string" where
  "show_int i = (if i < 0 then CHR ''-'' # show_nat (nat (- i)) else show_nat (nat i))"

text \<open>String conversion, as performed by a template literal \<^verbatim>\<open>`${v}`\<close>.\<close>

fun toString :: "jsval \<Rightarrow> string" where
  "toString JUndefined = ''undefined''"
| "toString JNull = ''null''"
| "toString (JBool b) = (if b then ''true'' else ''false'')"
| "toString (JNum n) = show_int n"
| "toString JNaN = ''NaN''"
| "toString (JStr s) = s"
| "toString (JObj kvs) = ''[object Object]''"

text \<open>
  \<^verbatim>\<open>parseInt(v)\<close> without a radix: the argument is converted to a string, leading
  white space is skipped, an optional sign is read, a \<^verbatim>\<open>0x\<close> prefix selects base 16,
  and the longest prefix of digits is converted. No digit at all gives \<^verbatim>\<open>NaN\<close>,
  here \<open>None\<close>.
\<close>

definition is_space :: "char \<Rightarrow> bool" where
  "is_space c = (c \<in> set [CHR '' '', CHR 0x09, CHR 0x0A, CHR 0x0B, CHR 0x0C, CHR 0x0D])"

definition digit_val :: "char \<Rightarrow> nat option" where
  "digit_val c =
     (let n = (of_char c :: nat) in
      if 48 \<le> n \<and> n \<le> 57 then Some (n - 48)
      else if 97 \<le> n \<and> n \<le> 102 then Some (n - 87)
      else if 65 \<le> n \<and> n \<le> 70 then Some (n - 55)
      else None)"

definition is_digit_of :: "nat \<Rightarrow> char \<Rightarrow> bool" where
  "is_digit_of radix c = (case digit_val c of Some d \<Rightarrow> d < radix | None \<Rightarrow> False)"

definition digits_val :: "nat \<Rightarrow> string \<Rightarrow> nat" where
  "digits_val radix ds = foldl (\<lambda>acc c. acc * radix + the (digit_val c)) 0 ds"

definition parse_digits :: "nat \<Rightarrow> string \<Rightarrow> nat option" where
  "parse_digits radix s =
     (let ds = takeWhile (is_digit_of radix) s in
      if ds = [] then None else Some (digits_val radix ds))"

definition parse_unsigned :: "string \<Rightarrow> nat option" where
  "parse_unsigned s =
     (case s of
        c0 # c1 # rest \<Rightarrow>
          if c0 = CHR ''0'' \<and> (c1 = CHR ''x'' \<or> c1 = CHR ''X'')
          then parse_digits 16 rest else parse_digits 10 s
      | _ \<Rightarrow> parse_digits 10 s)"

definition parseInt_str :: "string \<Rightarrow> int option" where
  "parseInt_str s =
     (case dropWhile is_space s of
        [] \<Rightarrow> None
      | c # rest \<Rightarrow>
          if c = CHR ''-'' then map_option (\<lambda>n. - int n) (parse_unsigned rest)
          else if c = CHR ''+'' then map_option int (parse_unsigned rest)
          else map_option int (parse_unsigned (c # rest)))"

definition parseInt :: "jsval \<Rightarrow> int option" where
  "parseInt v = parseInt_str (toString v)"

text \<open>The result of \<^verbatim>\<open>parseInt\<close> as a JavaScript value.\<close>

definition num_of :: "int option \<Rightarrow> jsval" where
  "num_of r = (case r of Some n \<Rightarrow> JNum n | None \<Rightarrow> JNaN)"

section \<open>Double-precision arithmetic of the code generators\<close>

text \<open>
  Both numeric code generators evaluate
  \<^verbatim>\<open>Math.floor(min + Math.random() * width)\<close> in IEEE 754 binary64 arithmetic.
  Every finite non-negative double is an integer multiple of \<open>2 ^ -1074\<close> whose
  significand has at most 53 bits, so a non-negative double is represented by the
  natural number \<open>n\<close> with value \<open>n / 2 ^ 1074\<close>. A product or sum is computed
  exactly on these numerators and then rounded to the nearest representable value,
  ties to even. The operands of the generators stay far below the overflow threshold,
  and the small powers of ten that \<^verbatim>\<open>Math.pow\<close> computes for them are exact.
\<close>

text \<open>
  A numerator with \<open>b\<close> significant bits is a double when \<open>b \<le> 53\<close> or its low
  \<open>b - 53\<close> bits are zero. \<open>sig_shift n\<close> is this number of low bits, and
  \<open>round_double n\<close> is the double nearest to \<open>n\<close>, the one with the even significand
  when \<open>n\<close> is halfway between two doubles.
\<close>

definition sig_shift :: "nat \<Rightarrow> nat" where
  "sig_shift n = floorlog 2 n - 53"

definition round_double :: "nat \<Rightarrow> nat" where
  "round_double n =
     (let s = sig_shift n; q = n div 2 ^ s; r = n mod 2 ^ s in
      if 2 ^ s < 2 * r \<or> (2 * r = 2 ^ s \<and> odd q) then (q + 1) * 2 ^ s else q * 2 ^ s)"

definition is_double :: "nat \<Rightarrow> bool" where
  "is_double n = (n mod 2 ^ sig_shift n = 0)"

text \<open>\<^verbatim>\<open>Math.random()\<close> returns a double \<open>r\<close> with \<open>0 \<le> r < 1\<close>.\<close>

definition is_random :: "nat \<Rightarrow> bool" where
  "is_random m = (is_double m \<and> m < 2 ^ 1074)"

text \<open>
  \<^verbatim>\<open>Math.floor(lo + r * width)\<close> for integers \<open>lo\<close> and \<open>width\<close> below \<open>2 ^ 53\<close>
  (which are doubles themselves) and the random double with numerator \<open>m\<close>.
\<close>

definition floor_lo_plus_random_times :: "nat \<Rightarrow> nat \<Rightarrow> nat \<Rightarrow> nat" where
  "floor_lo_plus_random_times lo width m =
     round_double (lo * 2 ^ 1074 + round_double (m * width)) div 2 ^ 1074"

section \<open>Transport options and observable effects\<close>

datatype transport_kind = Websocket | Rest | Callback

text \<open>\<^verbatim>\<open>TelegramBotSettings\<close>: its constructor stores the fields it is given.\<close>

record TelegramBotSettings =
  bs_botToken :: "string option"
  bs_botUsername :: "string option"
  bs_messages :: "(string \<times> string) list"

definition getBotUsername :: "TelegramBotSettings \<Rightarrow> string" where
  "getBotUsername bs =
     (case bs_botUsername bs of
        Some u \<Rightarrow> if u \<noteq> [] then u else ''YOUR_BOT_USERNAME''
      | None \<Rightarrow> ''YOUR_BOT_USERNAME'')"

text \<open>
  \<^verbatim>\<open>AuthTransportOptions\<close>. The handlers \<^verbatim>\<open>onAuth\<close>, \<^verbatim>\<open>saveHandler\<close> and
  \<^verbatim>\<open>wsServer.emit\<close> are supplied by the host application; the fields record whether
  a callable handler is present, and a call of a handler is recorded as an effect.
  What a handler does is not part of the library. \<^verbatim>\<open>TwoFAAuth\<close> and
  \<^verbatim>\<open>WidgetAuth\<close> call the handlers inside \<^verbatim>\<open>try\<close>/\<^verbatim>\<open>catch\<close>, and the model
  covers the calls in which the handlers return. \<^verbatim>\<open>DeeplinkAuth\<close> and
  \<^verbatim>\<open>CodeAuth\<close> call them unprotected; there, whether a call throws is a parameter
  of the model, like the readings of the clock and of the random source.
\<close>

record AuthTransportOptions =
  transport :: "transport_kind list option"
  restEndpoint :: "string option"
  wsServer :: bool
  onAuth :: bool
  saveHandler :: bool
  botSettings :: "TelegramBotSettings option"
  botToken :: "string option"
  botUsername :: "string option"

datatype log_level = INFO | WARN | ERROR

datatype effect =
    CallSaveHandler jsval
  | CallOnAuth jsval
  | WsEmit string jsval
  | RestPost string jsval
  | Log log_level string

datatype error =
    MissingBotCredentials
  | TypeError
  | HandlerException

text \<open>
  A sequence of unprotected handler calls: \<open>throws c\<close> tells whether the host's handler
  throws at the call \<open>c\<close>. The calls are made in order up to and including the first
  that throws; the result is the calls made and whether an exception was thrown.
\<close>

fun run_calls :: "(effect \<Rightarrow> bool) \<Rightarrow> effect list \<Rightarrow> effect list \<times> bool" where
  "run_calls throws [] = ([], False)"
| "run_calls throws (c # cs) =
     (if throws c then ([c], True)
      else (c # fst (run_calls throws cs), snd (run_calls throws cs)))"

text \<open>\<^verbatim>\<open>options.transport?.includes(kind)\<close>\<close>

definition transport_includes :: "'a AuthTransportOptions_scheme \<Rightarrow> transport_kind \<Rightarrow> bool" where
  "transport_includes opts kind =
     (case transport opts of Some ts \<Rightarrow> kind \<in> set ts | None \<Rightarrow> False)"

text \<open>
  The credential check shared by the constructors of \<^verbatim>\<open>DeeplinkAuth\<close>,
  \<^verbatim>\<open>CodeAuth\<close> and \<^verbatim>\<open>TwoFAAuth\<close>: \<^verbatim>\<open>botSettings\<close> if present, else settings built
  from a non-empty \<^verbatim>\<open>botToken\<close>, else \<^verbatim>\<open>throw new Error(...)\<close>.
\<close>

definition resolveBotSettings :: "'a AuthTransportOptions_scheme \<Rightarrow> error + TelegramBotSettings" where
  "resolveBotSettings opts =
     (case botSettings opts of
        Some bs \<Rightarrow> Inr bs
      | None \<Rightarrow>
          (case botToken opts of
             Some t \<Rightarrow>
               if t \<noteq> [] then
                 Inr \<lparr>bs_botToken = Some t, bs_botUsername = botUsername opts, bs_messages = []\<rparr>
               else Inl MissingBotCredentials
           | None \<Rightarrow> Inl MissingBotCredentials))"

section \<open>DeeplinkAuth\<close>

record DeeplinkSession =
  dl_token :: string
  dl_createdAt :: int
  dl_used :: bool
  dl_userData :: "jsval option"

text \<open>
  The object: its options, the resolved bot settings, the \<^verbatim>\<open>sessions\<close> map and the
  effects it has performed so far (most recent last).
\<close>

record DeeplinkAuth =
  dl_options :: AuthTransportOptions
  dl_botSettings :: TelegramBotSettings
  dl_sessions :: "string \<rightharpoonup> DeeplinkSession"
  dl_effects :: "effect list"

definition DeeplinkAuth_new :: "AuthTransportOptions \<Rightarrow> error + DeeplinkAuth" where
  "DeeplinkAuth_new opts =
     (case resolveBotSettings opts of
        Inl e \<Rightarrow> Inl e
      | Inr bs \<Rightarrow>
          Inr \<lparr>dl_options = opts, dl_botSettings = bs, dl_sessions = Map.empty, dl_effects = []\<rparr>)"

text \<open>
  \<^verbatim>\<open>generateDeeplink()\<close>; \<open>tok\<close> is the value of
  \<^verbatim>\<open>randomBytes(16).toString('hex')\<close> and \<open>now\<close> the reading of \<^verbatim>\<open>Date.now()\<close>.
\<close>

definition generateDeeplink :: "string \<Rightarrow> int \<Rightarrow> DeeplinkAuth \<Rightarrow> string \<times> DeeplinkAuth" where
  "generateDeeplink tok now a =
     (''https://t.me/'' @ getBotUsername (dl_botSettings a) @ ''?start='' @ tok,
      a\<lparr>dl_sessions := (dl_sessions a)(tok \<mapsto>
           \<lparr>dl_token = tok, dl_createdAt = now, dl_used = False, dl_userData = None\<rparr>)\<rparr>)"

text \<open>
  \<^verbatim>\<open>sendResult\<close> of \<^verbatim>\<open>DeeplinkAuth\<close> and \<^verbatim>\<open>CodeAuth\<close>: save handler, callback,
  REST (its request is commented out in the source) and web socket, in this order,
  with no \<^verbatim>\<open>try\<close>/\<^verbatim>\<open>catch\<close>: an exception of a handler ends the method and
  leaves it.
\<close>

definition sendResult_basic ::
  "(effect \<Rightarrow> bool) \<Rightarrow> AuthTransportOptions \<Rightarrow> jsval \<Rightarrow> effect list \<times> bool" where
  "sendResult_basic throws opts userData =
     run_calls throws
       ((if saveHandler opts then [CallSaveHandler userData] else []) @
        (if transport_includes opts Callback \<and> onAuth opts then [CallOnAuth userData] else []) @
        (if transport_includes opts Websocket \<and> wsServer opts then [WsEmit ''tg-auth'' userData] else []))"

text \<open>
  \<^verbatim>\<open>handleAuth(token, userData)\<close>. The session is marked and stored before
  \<^verbatim>\<open>sendResult\<close> runs, so an exception from a handler leaves \<^verbatim>\<open>handleAuth\<close> with
  the session already used: the result is then \<open>Inl HandlerException\<close> in place of a
  returned boolean.
\<close>

definition dl_handleAuth ::
  "(effect \<Rightarrow> bool) \<Rightarrow> string \<Rightarrow> jsval \<Rightarrow> DeeplinkAuth \<Rightarrow> (error + bool) \<times> DeeplinkAuth" where
  "dl_handleAuth throws tok userData a =
     (case dl_sessions a tok of
        None \<Rightarrow> (Inr False, a)
      | Some session \<Rightarrow>
          if dl_used session then (Inr False, a)
          else
            (let sent = sendResult_basic throws (dl_options a) userData;
                 a' = a\<lparr>dl_sessions := (dl_sessions a)(tok \<mapsto>
                           session\<lparr>dl_used := True, dl_userData := Some userData\<rparr>),
                        dl_effects := dl_effects a @ fst sent\<rparr>
             in if snd sent then (Inl HandlerException, a') else (Inr True, a')))"

definition invalidateDeeplink :: "string \<Rightarrow> DeeplinkAuth \<Rightarrow> DeeplinkAuth" where
  "invalidateDeeplink tok a =
     (case dl_sessions a tok of
        None \<Rightarrow> a
      | Some session \<Rightarrow> a\<lparr>dl_sessions := (dl_sessions a)(tok \<mapsto> session\<lparr>dl_used := True\<rparr>)\<rparr>)"

section \<open>CodeAuth\<close>

record CodeSession =
  cd_code :: string
  cd_createdAt :: int
  cd_used :: bool
  cd_userData :: "jsval option"

record CodeAuth =
  cd_options :: AuthTransportOptions
  cd_botSettings :: TelegramBotSettings
  cd_sessions :: "string \<rightharpoonup> CodeSession"
  cd_effects :: "effect list"

definition CodeAuth_new :: "AuthTransportOptions \<Rightarrow> error + CodeAuth" where
  "CodeAuth_new opts =
     (case resolveBotSettings opts of
        Inl e \<Rightarrow> Inl e
      | Inr bs \<Rightarrow>
          Inr \<lparr>cd_options = opts, cd_botSettings = bs, cd_sessions = Map.empty, cd_effects = []\<rparr>)"

text \<open>
  \<^verbatim>\<open>generateCode()\<close>: \<^verbatim>\<open>Math.floor(100000 + Math.random() * 900000).toString()\<close>,
  with \<open>m\<close> the numerator of the random double. \<^verbatim>\<open>this.sessions.set(code, ...)\<close>
  replaces whatever session the map holds for the code.
\<close>

definition cd_randomCode :: "nat \<Rightarrow> string" where
  "cd_randomCode m = show_nat (floor_lo_plus_random_times 100000 900000 m)"

definition cd_generateCode :: "nat \<Rightarrow> int \<Rightarrow> CodeAuth \<Rightarrow> string \<times> CodeAuth" where
  "cd_generateCode m now a =
     (let code = cd_randomCode m in
      (code,
       a\<lparr>cd_sessions := (cd_sessions a)(code \<mapsto>
            \<lparr>cd_code = code, cd_createdAt = now, cd_used = False, cd_userData = None\<rparr>)\<rparr>))"

text \<open>\<^verbatim>\<open>handleAuth(code, userData)\<close>, as in \<^verbatim>\<open>DeeplinkAuth\<close>.\<close>

definition cd_handleAuth ::
  "(effect \<Rightarrow> bool) \<Rightarrow> string \<Rightarrow> jsval \<Rightarrow> CodeAuth \<Rightarrow> (error + bool) \<times> CodeAuth" where
  "cd_handleAuth throws code userData a =
     (case cd_sessions a code of
        None \<Rightarrow> (Inr False, a)
      | Some session \<Rightarrow>
          if cd_used session then (Inr False, a)
          else
            (let sent = sendResult_basic throws (cd_options a) userData;
                 a' = a\<lparr>cd_sessions := (cd_sessions a)(code \<mapsto>
                           session\<lparr>cd_used := True, cd_userData := Some userData\<rparr>),
                        cd_effects := cd_effects a @ fst sent\<rparr>
             in if snd sent then (Inl HandlerException, a') else (Inr True, a')))"

definition invalidateCode :: "string \<Rightarrow> CodeAuth \<Rightarrow> CodeAuth" where
  "invalidateCode code a =
     (case cd_sessions a code of
        None \<Rightarrow> a
      | Some session \<Rightarrow> a\<lparr>cd_sessions := (cd_sessions a)(code \<mapsto> session\<lparr>cd_used := True\<rparr>)\<rparr>)"

section \<open>Runs of calls on the artifact stores\<close>

text \<open>
  The calls a host can make on the two artifact stores, and runs of such calls under a
  given behaviour \<open>throws\<close> of the handlers. The state after a call of
  \<^verbatim>\<open>handleAuth\<close> is the state it leaves, whether it returns or throws.
\<close>

datatype dl_op =
    DlGenerate string int
  | DlHandleAuth string jsval
  | DlInvalidate string

fun dl_step :: "(effect \<Rightarrow> bool) \<Rightarrow> DeeplinkAuth \<Rightarrow> dl_op \<Rightarrow> DeeplinkAuth" where
  "dl_step throws a (DlGenerate tok now) = snd (generateDeeplink tok now a)"
| "dl_step throws a (DlHandleAuth tok userData) = snd (dl_handleAuth throws tok userData a)"
| "dl_step throws a (DlInvalidate tok) = invalidateDeeplink tok a"

definition dl_run :: "(effect \<Rightarrow> bool) \<Rightarrow> DeeplinkAuth \<Rightarrow> dl_op list \<Rightarrow> DeeplinkAuth" where
  "dl_run throws a ops = foldl (dl_step throws) a ops"

fun dl_generates :: "string \<Rightarrow> dl_op \<Rightarrow> bool" where
  "dl_generates tok (DlGenerate tok' now) = (tok' = tok)"
| "dl_generates tok other = False"

datatype cd_op =
    CdGenerate nat int
  | CdHandleAuth string jsval
  | CdInvalidate string

fun cd_step :: "(effect \<Rightarrow> bool) \<Rightarrow> CodeAuth \<Rightarrow> cd_op \<Rightarrow> CodeAuth" where
  "cd_step throws a (CdGenerate m now) = snd (cd_generateCode m now a)"
| "cd_step throws a (CdHandleAuth code userData) = snd (cd_handleAuth throws code userData a)"
| "cd_step throws a (CdInvalidate code) = invalidateCode code a"

definition cd_run :: "(effect \<Rightarrow> bool) \<Rightarrow> CodeAuth \<Rightarrow> cd_op list \<Rightarrow> CodeAuth" where
  "cd_run throws a ops = foldl (cd_step throws) a ops"

fun cd_generates :: "string \<Rightarrow> cd_op \<Rightarrow> bool" where
  "cd_generates code (CdGenerate m now) = (cd_randomCode m = code)"
| "cd_generates code other = False"

section \<open>TwoFAAuth\<close>

text \<open>
  A user id is a string or a number; the session key is its rendering by the template
  literal \<^verbatim>\<open>`${userId}`\<close>.
\<close>

datatype user_id = UidStr string | UidNum int

fun sessionKey :: "user_id \<Rightarrow> string" where
  "sessionKey (UidStr s) = s"
| "sessionKey (UidNum n) = show_int n"

fun uid_val :: "user_id \<Rightarrow> jsval" where
  "uid_val (UidStr s) = JStr s"
| "uid_val (UidNum n) = JNum n"

record TwoFASession =
  tf_userId :: user_id
  tf_code :: string
  tf_createdAt :: int
  tf_expiresAt :: int
  tf_used :: bool
  tf_verified :: bool
  tf_userData :: "jsval option"

record TwoFAOptions = AuthTransportOptions +
  codeLifetime :: "int option"
  codeLength :: "nat option"
  maxAttempts :: "int option"

text \<open>\<^verbatim>\<open>x || d\<close> on an optional number: \<^verbatim>\<open>undefined\<close> and \<open>0\<close> give the default.\<close>

definition or_default :: "'a::zero option \<Rightarrow> 'a \<Rightarrow> 'a" where
  "or_default x d = (case x of Some v \<Rightarrow> if v \<noteq> 0 then v else d | None \<Rightarrow> d)"

text \<open>
  The object: the options as given, the three resolved settings of
  \<^verbatim>\<open>this.options\<close>, the bot settings, the two maps and the effects so far.
\<close>

record TwoFAAuth =
  tf_options :: TwoFAOptions
  tf_codeLifetime :: int
  tf_codeLength :: nat
  tf_maxAttempts :: int
  tf_botSettings :: TelegramBotSettings
  tf_sessions :: "string \<rightharpoonup> TwoFASession"
  tf_attempts :: "string \<rightharpoonup> int"
  tf_effects :: "effect list"

definition TwoFAAuth_new :: "TwoFAOptions \<Rightarrow> error + TwoFAAuth" where
  "TwoFAAuth_new opts =
     (case resolveBotSettings opts of
        Inl e \<Rightarrow> Inl e
      | Inr bs \<Rightarrow>
          Inr \<lparr>tf_options = opts,
               tf_codeLifetime = or_default (codeLifetime opts) (1000 * 60 * 5),
               tf_codeLength = or_default (codeLength opts) 6,
               tf_maxAttempts = or_default (maxAttempts opts) 3,
               tf_botSettings = bs,
               tf_sessions = Map.empty,
               tf_attempts = Map.empty,
               tf_effects = []\<rparr>)"

text \<open>
  \<^verbatim>\<open>sendResult\<close> of \<^verbatim>\<open>TwoFAAuth\<close> and \<^verbatim>\<open>WidgetAuth\<close>: callback, REST request,
  web socket message under the given event name, save handler, in this order.
  An exception of a handler is caught there and only logged.
\<close>

definition sendResult_full :: "'a AuthTransportOptions_scheme \<Rightarrow> string \<Rightarrow> jsval \<Rightarrow> effect list" where
  "sendResult_full opts event userData =
     (if transport_includes opts Callback \<and> onAuth opts then [CallOnAuth userData] else []) @
     (case restEndpoint opts of
        Some url \<Rightarrow> if transport_includes opts Rest \<and> url \<noteq> [] then [RestPost url userData] else []
      | None \<Rightarrow> []) @
     (if transport_includes opts Websocket \<and> wsServer opts then [WsEmit event userData] else []) @
     (if saveHandler opts then [CallSaveHandler userData] else [])"

text \<open>Bytes and their hexadecimal rendering, \<^verbatim>\<open>buffer.toString('hex')\<close>.\<close>

type_synonym byte = char

definition hex_digit :: "nat \<Rightarrow> char" where
  "hex_digit d = ''0123456789abcdef'' ! d"

definition hex_of_bytes :: "byte list \<Rightarrow> string" where
  "hex_of_bytes bs = concat (map (\<lambda>b. [hex_digit (of_char b div 16), hex_digit (of_char b mod 16)]) bs)"

text \<open>
  \<^verbatim>\<open>generateCode(length)\<close>. Up to length 8 the code is
  \<^verbatim>\<open>Math.floor(min + Math.random() * (max - min + 1)).toString()\<close> with
  \<^verbatim>\<open>min = Math.pow(10, length - 1)\<close> and \<^verbatim>\<open>max = Math.pow(10, length) - 1\<close>;
  \<open>m\<close> is the numerator of the random double. A longer code is the prefix of the
  hexadecimal rendering of \<open>bytes\<close>, the result of
  \<^verbatim>\<open>randomBytes(Math.ceil(length / 2))\<close>. The method is private and only called
  with the resolved \<^verbatim>\<open>codeLength\<close>, which is at least 1.
\<close>

definition tf_generateCode :: "nat \<Rightarrow> nat \<Rightarrow> byte list \<Rightarrow> string" where
  "tf_generateCode len m bytes =
     (if len \<le> 8 then
        (let lo = 10 ^ (len - 1); hi = 10 ^ len - 1
         in show_nat (floor_lo_plus_random_times lo (hi - lo + 1) m))
      else take len (hex_of_bytes bytes))"

definition tf_log :: "log_level \<Rightarrow> string \<Rightarrow> TwoFAAuth \<Rightarrow> TwoFAAuth" where
  "tf_log lvl msg a = a\<lparr>tf_effects := tf_effects a @ [Log lvl msg]\<rparr>"

text \<open>
  \<^verbatim>\<open>start2FA(userId, userData?, sendMessage)\<close>; \<open>m\<close> and \<open>bytes\<close> are the random
  inputs of the code generator, \<open>t1\<close> and \<open>t2\<close> the two readings of \<^verbatim>\<open>Date.now()\<close>.
  With \<^verbatim>\<open>sendMessage\<close> the source only formats a message text and drops it.
\<close>

definition start2FA ::
  "user_id \<Rightarrow> jsval option \<Rightarrow> bool \<Rightarrow> nat \<Rightarrow> byte list \<Rightarrow> int \<Rightarrow> int \<Rightarrow> TwoFAAuth \<Rightarrow> string \<times> TwoFAAuth" where
  "start2FA userId userData sendMessage m bytes t1 t2 a =
     (let code = tf_generateCode (tf_codeLength a) m bytes;
          key = sessionKey userId
      in (code,
          tf_log INFO (''2FA initiated for user '' @ key)
            (a\<lparr>tf_sessions := (tf_sessions a)(key \<mapsto>
                  \<lparr>tf_userId = userId, tf_code = code, tf_createdAt = t1,
                   tf_expiresAt = t2 + tf_codeLifetime a, tf_used = False, tf_verified = False,
                   tf_userData = userData\<rparr>),
               tf_attempts := (tf_attempts a)(key \<mapsto> 0)\<rparr>)))"

text \<open>\<^verbatim>\<open>this.attempts.get(sessionKey) || 0\<close>\<close>

definition attempts_of :: "TwoFAAuth \<Rightarrow> string \<Rightarrow> int" where
  "attempts_of a key = (case tf_attempts a key of Some n \<Rightarrow> n | None \<Rightarrow> 0)"

text \<open>The identity dispatched by a successful verification.\<close>

definition tf_result_identity :: "user_id \<Rightarrow> TwoFASession \<Rightarrow> jsval" where
  "tf_result_identity userId session =
     (case tf_userData session of
        Some ud \<Rightarrow>
          if truthy ud then ud
          else JObj [(''id'', uid_val userId), (''is_bot'', JBool False),
                     (''first_name'', JStr ''Unknown''), (''twofa_verified'', JBool True)]
      | None \<Rightarrow>
          JObj [(''id'', uid_val userId), (''is_bot'', JBool False),
                (''first_name'', JStr ''Unknown''), (''twofa_verified'', JBool True)])"

text \<open>\<^verbatim>\<open>verify2FA(userId, code)\<close>, with \<open>now\<close> the reading of \<^verbatim>\<open>Date.now()\<close>.\<close>

definition verify2FA :: "user_id \<Rightarrow> string \<Rightarrow> int \<Rightarrow> TwoFAAuth \<Rightarrow> bool \<times> TwoFAAuth" where
  "verify2FA userId code now a =
     (let key = sessionKey userId in
      case tf_sessions a key of
        None \<Rightarrow> (False, tf_log WARN (''2FA session not found for user '' @ key) a)
      | Some session \<Rightarrow>
          if now > tf_expiresAt session then
            (False, tf_log WARN (''2FA code expired for user '' @ key) a)
          else if tf_used session then
            (False, tf_log WARN (''2FA code already used for user '' @ key) a)
          else
            (let attempts = attempts_of a key in
             if attempts \<ge> tf_maxAttempts a then
               (False, tf_log WARN (''Too many 2FA attempts for user '' @ key) a)
             else
               (let a1 = a\<lparr>tf_attempts := (tf_attempts a)(key \<mapsto> attempts + 1)\<rparr> in
                if tf_code session \<noteq> code then
                  (False, tf_log WARN (''Invalid 2FA code for user '' @ key) a1)
                else
                  (True,
                   tf_log INFO (''2FA verified successfully for user '' @ key)
                     (a1\<lparr>tf_sessions := (tf_sessions a1)(key \<mapsto>
                            session\<lparr>tf_used := True, tf_verified := True\<rparr>),
                         tf_effects := tf_effects a1 @
                            sendResult_full (tf_options a1) ''tgauth:2fa''
                              (tf_result_identity userId session)\<rparr>)))))"

definition isVerified :: "user_id \<Rightarrow> TwoFAAuth \<Rightarrow> bool" where
  "isVerified userId a =
     (case tf_sessions a (sessionKey userId) of Some session \<Rightarrow> tf_verified session | None \<Rightarrow> False)"

definition reset2FA :: "user_id \<Rightarrow> TwoFAAuth \<Rightarrow> TwoFAAuth" where
  "reset2FA userId a =
     (let key = sessionKey userId in
      tf_log INFO (''2FA reset for user '' @ key)
        (a\<lparr>tf_sessions := (tf_sessions a)(key := None),
           tf_attempts := (tf_attempts a)(key := None)\<rparr>))"

text \<open>The public operations of the store, and runs of them.\<close>

datatype tf_op =
    Start2FA user_id "jsval option" bool nat "byte list" int int
  | Verify2FA user_id string int
  | IsVerified user_id
  | Reset2FA user_id

fun tf_step :: "TwoFAAuth \<Rightarrow> tf_op \<Rightarrow> TwoFAAuth" where
  "tf_step a (Start2FA userId userData sendMessage m bytes t1 t2) =
     snd (start2FA userId userData sendMessage m bytes t1 t2 a)"
| "tf_step a (Verify2FA userId code now) = snd (verify2FA userId code now a)"
| "tf_step a (IsVerified userId) = a"
| "tf_step a (Reset2FA userId) = reset2FA userId a"

definition tf_run :: "TwoFAAuth \<Rightarrow> tf_op list \<Rightarrow> TwoFAAuth" where
  "tf_run a ops = foldl tf_step a ops"

fun tf_starts :: "string \<Rightarrow> tf_op \<Rightarrow> bool" where
  "tf_starts key (Start2FA userId userData sendMessage m bytes t1 t2) = (sessionKey userId = key)"
| "tf_starts key other = False"

section \<open>SessionManager\<close>

record Session =
  sm_id :: string
  sm_userData :: jsval
  sm_createdAt :: int
  sm_lastActivity :: int
  sm_metadata :: "(string \<times> jsval) list option"

text \<open>
  The object: the resolved \<^verbatim>\<open>sessionLifetime\<close>, the \<^verbatim>\<open>sessions\<close> map and the
  snapshots that were handed to \<^verbatim>\<open>persistentStore.save\<close>, most recent last.
\<close>

record SessionManager =
  sm_sessionLifetime :: int
  sm_sessions :: "string \<rightharpoonup> Session"
  sm_saved :: "(string \<rightharpoonup> Session) list"

definition SessionManager_new :: "int option \<Rightarrow> SessionManager" where
  "SessionManager_new sessionLifetime =
     \<lparr>sm_sessionLifetime = or_default sessionLifetime (1000 * 60 * 60 * 24 * 30),
      sm_sessions = Map.empty, sm_saved = []\<rparr>"

definition saveSessions :: "SessionManager \<Rightarrow> SessionManager" where
  "saveSessions a = a\<lparr>sm_saved := sm_saved a @ [sm_sessions a]\<rparr>"

text \<open>
  \<^verbatim>\<open>createSession(userData, metadata?)\<close>; \<open>sessionId\<close> is the value of the token
  generator and \<open>now\<close> the reading of \<^verbatim>\<open>Date.now()\<close>.
\<close>

definition createSession ::
  "string \<Rightarrow> int \<Rightarrow> jsval \<Rightarrow> (string \<times> jsval) list option \<Rightarrow> SessionManager \<Rightarrow> Session \<times> SessionManager" where
  "createSession sessionId now userData metadata a =
     (let session = \<lparr>sm_id = sessionId, sm_userData = userData, sm_createdAt = now,
                      sm_lastActivity = now, sm_metadata = metadata\<rparr>
      in (session, saveSessions (a\<lparr>sm_sessions := (sm_sessions a)(sessionId \<mapsto> session)\<rparr>)))"

text \<open>
  \<^verbatim>\<open>getSession(sessionId)\<close>; \<open>t1\<close> is the reading of \<^verbatim>\<open>Date.now()\<close> in the expiry
  test and \<open>t2\<close> the reading that becomes the new \<^verbatim>\<open>lastActivity\<close>.
\<close>

definition getSession :: "string \<Rightarrow> int \<Rightarrow> int \<Rightarrow> SessionManager \<Rightarrow> Session option \<times> SessionManager" where
  "getSession sessionId t1 t2 a =
     (case sm_sessions a sessionId of
        None \<Rightarrow> (None, a)
      | Some session \<Rightarrow>
          if t1 - sm_lastActivity session > sm_sessionLifetime a then
            (None, saveSessions (a\<lparr>sm_sessions := (sm_sessions a)(sessionId := None)\<rparr>))
          else
            (let session' = session\<lparr>sm_lastActivity := t2\<rparr>
             in (Some session', a\<lparr>sm_sessions := (sm_sessions a)(sessionId \<mapsto> session')\<rparr>)))"

text \<open>
  \<^verbatim>\<open>updateSession(sessionId, metadata)\<close>: the object spread
  \<^verbatim>\<open>{ ...session.metadata, ...metadata }\<close> lets the patch win on common keys.
\<close>

definition updateSession ::
  "string \<Rightarrow> (string \<times> jsval) list \<Rightarrow> int \<Rightarrow> SessionManager \<Rightarrow> bool \<times> SessionManager" where
  "updateSession sessionId metadata now a =
     (case sm_sessions a sessionId of
        None \<Rightarrow> (False, a)
      | Some session \<Rightarrow>
          (let old = (case sm_metadata session of Some md \<Rightarrow> md | None \<Rightarrow> []);
               session' = session\<lparr>sm_metadata := Some (AList.updates (map fst metadata) (map snd metadata) old),
                                  sm_lastActivity := now\<rparr>
           in (True, saveSessions (a\<lparr>sm_sessions := (sm_sessions a)(sessionId \<mapsto> session')\<rparr>))))"

definition deleteSession :: "string \<Rightarrow> SessionManager \<Rightarrow> bool \<times> SessionManager" where
  "deleteSession sessionId a =
     (sm_sessions a sessionId \<noteq> None,
      saveSessions (a\<lparr>sm_sessions := (sm_sessions a)(sessionId := None)\<rparr>))"

section \<open>WidgetAuth\<close>

record WidgetAuthOptions = AuthTransportOptions +
  validateSignature :: "bool option"

record WidgetAuth =
  wa_options :: WidgetAuthOptions
  wa_effects :: "effect list"

text \<open>
  The constructor copies the options and fills in the default of
  \<^verbatim>\<open>validateSignature\<close>. It contains no statement that can throw.
\<close>

definition WidgetAuth_new :: "WidgetAuthOptions \<Rightarrow> error + WidgetAuth" where
  "WidgetAuth_new opts =
     Inr \<lparr>wa_options = opts\<lparr>validateSignature :=
              Some (case validateSignature opts of Some b \<Rightarrow> b | None \<Rightarrow> True)\<rparr>,
          wa_effects = []\<rparr>"

text \<open>
  The two primitives of the \<^verbatim>\<open>crypto\<close> module of the platform, which are not
  part of the library: \<^verbatim>\<open>createHash('sha256').update(s).digest()\<close> and
  \<^verbatim>\<open>createHmac('sha256', key).update(s).digest('hex')\<close>.
\<close>

record crypto =
  sha256 :: "string \<Rightarrow> byte list"
  hmac_sha256_hex :: "byte list \<Rightarrow> string \<Rightarrow> string"

text \<open>\<^verbatim>\<open>Array.prototype.join\<close>\<close>

fun join :: "string \<Rightarrow> string list \<Rightarrow> string" where
  "join sep [] = []"
| "join sep [x] = x"
| "join sep (x # y # ys) = x @ sep @ join sep (y # ys)"

text \<open>
  The body of \<^verbatim>\<open>validateSignature(data)\<close>, on the properties \<open>kvs\<close> of the payload.
  After \<^verbatim>\<open>delete data.hash\<close> the keys are sorted (by code unit, as
  \<^verbatim>\<open>Array.prototype.sort\<close> does for strings), and each key whose value is truthy
  contributes the line \<^verbatim>\<open>`${key}=${data[key]}`\<close>.
\<close>

definition checkLine :: "(string \<times> jsval) list \<Rightarrow> string \<Rightarrow> string" where
  "checkLine kvs key = key @ ''='' @ toString (getProp (JObj kvs) key)"

definition dataCheckArr :: "(string \<times> jsval) list \<Rightarrow> string list" where
  "dataCheckArr kvs =
     (let rest = AList.delete ''hash'' kvs
      in map (checkLine rest)
           (filter (\<lambda>key. truthy (getProp (JObj rest) key)) (sort (objectKeys rest))))"

definition dataCheckString :: "(string \<times> jsval) list \<Rightarrow> string" where
  "dataCheckString kvs = join [CHR 0x0A] (dataCheckArr kvs)"

text \<open>
  \<^verbatim>\<open>createHash('sha256').update(this.options.botToken)\<close> throws a
  \<^verbatim>\<open>TypeError\<close> when the token is \<^verbatim>\<open>undefined\<close>. The final test is
  \<^verbatim>\<open>hmac === hash\<close>, which a \<^verbatim>\<open>hash\<close> that is not a string never passes.
\<close>

definition wa_validateSignature ::
  "crypto \<Rightarrow> WidgetAuthOptions \<Rightarrow> (string \<times> jsval) list \<Rightarrow> error + bool" where
  "wa_validateSignature cr opts kvs =
     (let hash = getProp (JObj kvs) ''hash'';
          s = dataCheckString kvs
      in case botToken opts of
           None \<Rightarrow> Inl TypeError
         | Some tok \<Rightarrow> Inr (JStr (hmac_sha256_hex cr (sha256 cr tok) s) = hash))"

definition requiredFields :: "string list" where
  "requiredFields = [''id'', ''first_name'', ''auth_date'', ''hash'']"

definition wa_log :: "log_level \<Rightarrow> string \<Rightarrow> WidgetAuth \<Rightarrow> WidgetAuth" where
  "wa_log lvl msg w = w\<lparr>wa_effects := wa_effects w @ [Log lvl msg]\<rparr>"

definition widget_identity :: "jsval \<Rightarrow> jsval" where
  "widget_identity data =
     JObj [(''id'', num_of (parseInt (getProp data ''id''))),
           (''is_bot'', JBool False),
           (''first_name'', getProp data ''first_name''),
           (''last_name'', getProp data ''last_name''),
           (''username'', getProp data ''username''),
           (''language_code'', getProp data ''language_code''),
           (''photo_url'', getProp data ''photo_url'')]"

text \<open>
  \<^verbatim>\<open>now - authDate > 86400\<close>, where \<^verbatim>\<open>authDate\<close> is the result of
  \<^verbatim>\<open>parseInt\<close>; a comparison with \<^verbatim>\<open>NaN\<close> is false.
\<close>

definition widget_expired :: "int \<Rightarrow> int option \<Rightarrow> bool" where
  "widget_expired now authDate = (case authDate of Some d \<Rightarrow> now - d > 86400 | None \<Rightarrow> False)"

text \<open>
  \<^verbatim>\<open>handleAuth(data)\<close>; \<open>nowMs\<close> is the reading of \<^verbatim>\<open>Date.now()\<close>. The result is
  \<open>Inr\<close> of the returned boolean, or \<open>Inl\<close> of the exception that leaves the method.
\<close>

definition wa_handleAuth :: "crypto \<Rightarrow> jsval \<Rightarrow> int \<Rightarrow> WidgetAuth \<Rightarrow> (error + bool) \<times> WidgetAuth" where
  "wa_handleAuth cr data nowMs w =
     (case data of
        JObj kvs \<Rightarrow>
          (case find (\<lambda>field. \<not> truthy (getProp data field)) requiredFields of
             Some field \<Rightarrow> (Inr False, wa_log WARN (''Invalid widget data: missing '' @ field) w)
           | None \<Rightarrow>
               (let authDate = parseInt (getProp data ''auth_date'');
                    now = nowMs div 1000
                in if widget_expired now authDate then
                     (Inr False, wa_log WARN ''Widget data expired'' w)
                   else
                     (case (if validateSignature (wa_options w) = Some True
                            then wa_validateSignature cr (wa_options w) kvs else Inr True) of
                        Inl e \<Rightarrow> (Inl e, w)
                      | Inr isValid \<Rightarrow>
                          if \<not> isValid then
                            (Inr False, wa_log WARN ''Invalid widget signature'' w)
                          else
                            (Inr True,
                             wa_log INFO ''User authenticated via widget''
                               (w\<lparr>wa_effects := wa_effects w @
                                     sendResult_full (wa_options w) ''tgauth:widget''
                                       (widget_identity data)\<rparr>)))))
      | _ \<Rightarrow> (Inr False, wa_log WARN ''Invalid widget data: not an object'' w))"

section \<open>Notions used in the statements and proofs\<close>

text \<open>
  A value is spent in a store when a redemption of it cannot succeed: no session is
  registered for it, or the registered session is used.
\<close>

definition dl_spent :: "string \<Rightarrow> DeeplinkAuth \<Rightarrow> bool" where
  "dl_spent tok a = (case dl_sessions a tok of None \<Rightarrow> True | Some s \<Rightarrow> dl_used s)"

definition cd_spent :: "string \<Rightarrow> CodeAuth \<Rightarrow> bool" where
  "cd_spent code a = (case cd_sessions a code of None \<Rightarrow> True | Some s \<Rightarrow> cd_used s)"

text \<open>
  A subject is locked when no verification for its key can succeed: there is no
  challenge, or the attempt counter has reached the configured maximum.
\<close>

definition tf_locked :: "string \<Rightarrow> TwoFAAuth \<Rightarrow> bool" where
  "tf_locked key a = (tf_sessions a key = None \<or> attempts_of a key \<ge> tf_maxAttempts a)"

text \<open>The invariant of the challenge store: a verified challenge is a used one.\<close>

definition tf_inv :: "TwoFAAuth \<Rightarrow> bool" where
  "tf_inv a = (\<forall>k s. tf_sessions a k = Some s \<longrightarrow> tf_verified s \<longrightarrow> tf_used s)"

text \<open>
  The keys that contribute a line to the check string, in the order of their lines.
\<close>

definition signedKeys :: "(string \<times> jsval) list \<Rightarrow> string list" where
  "signedKeys kvs = filter (\<lambda>key. truthy (getProp (JObj (AList.delete ''hash'' kvs)) key))
      (sort (objectKeys (AList.delete ''hash'' kvs)))"

section \<open>Example objects\<close>

definition ex_opts :: AuthTransportOptions where
  "ex_opts = \<lparr>transport = Some [Callback], restEndpoint = None, wsServer = False, onAuth = True,
     saveHandler = False, botSettings = None, botToken = Some ''123:abc'', botUsername = None\<rparr>"

definition ex_settings :: TelegramBotSettings where
  "ex_settings = \<lparr>bs_botToken = Some ''123:abc'', bs_botUsername = None, bs_messages = []\<rparr>"

definition ex_user :: "int \<Rightarrow> jsval" where
  "ex_user i = JObj [(''id'', JNum i), (''first_name'', JStr ''Ann'')]"

definition ex_dl0 :: DeeplinkAuth where
  "ex_dl0 = \<lparr>dl_options = ex_opts, dl_botSettings = ex_settings, dl_sessions = Map.empty, dl_effects = []\<rparr>"

definition ex_dl1 :: DeeplinkAuth where
  "ex_dl1 = snd (generateDeeplink ''a1b2'' 1000 ex_dl0)"

text \<open>Handlers that always return, and handlers that always throw.\<close>

definition ex_quiet :: "effect \<Rightarrow> bool" where
  "ex_quiet c = False"

definition ex_throwing :: "effect \<Rightarrow> bool" where
  "ex_throwing c = True"

definition ex_cd0 :: CodeAuth where
  "ex_cd0 = \<lparr>cd_options = ex_opts, cd_botSettings = ex_settings, cd_sessions = Map.empty, cd_effects = []\<rparr>"

definition ex_tf_opts :: TwoFAOptions where
  "ex_tf_opts = \<lparr>transport = Some [Callback], restEndpoint = None, wsServer = False, onAuth = True,
     saveHandler = False, botSettings = None, botToken = Some ''123:abc'', botUsername = None,
     codeLifetime = None, codeLength = None, maxAttempts = None\<rparr>"

definition ex_tf0 :: TwoFAAuth where
  "ex_tf0 = \<lparr>tf_options = ex_tf_opts, tf_codeLifetime = 300000, tf_codeLength = 6, tf_maxAttempts = 3,
     tf_botSettings = ex_settings, tf_sessions = Map.empty, tf_attempts = Map.empty, tf_effects = []\<rparr>"

definition ex_challenge :: TwoFASession where
  "ex_challenge = \<lparr>tf_userId = UidStr ''42'', tf_code = ''123456'', tf_createdAt = 1000,
     tf_expiresAt = 301000, tf_used = False, tf_verified = False, tf_userData = None\<rparr>"

text \<open>A live challenge for subject 42; the same after use; the same with attempts exhausted.\<close>

definition ex_tf_live :: TwoFAAuth where
  "ex_tf_live = ex_tf0\<lparr>tf_sessions := [''42'' \<mapsto> ex_challenge], tf_attempts := [''42'' \<mapsto> 0]\<rparr>"

definition ex_tf_used :: TwoFAAuth where
  "ex_tf_used = ex_tf0\<lparr>tf_sessions := [''42'' \<mapsto> ex_challenge\<lparr>tf_used := True, tf_verified := True\<rparr>],
     tf_attempts := [''42'' \<mapsto> 1]\<rparr>"

definition ex_tf_exhausted :: TwoFAAuth where
  "ex_tf_exhausted = ex_tf0\<lparr>tf_sessions := [''42'' \<mapsto> ex_challenge], tf_attempts := [''42'' \<mapsto> 3]\<rparr>"

definition ex_tf_ops :: "tf_op list" where
  "ex_tf_ops = [Verify2FA (UidStr ''42'') ''123456'' 2000, IsVerified (UidStr ''42''),
     Reset2FA (UidStr ''7''), Verify2FA (UidStr ''7'') ''000000'' 2500]"

text \<open>The random double 0.5 and a run that starts a challenge and answers it.\<close>

definition ex_half :: nat where
  "ex_half = 2 ^ 1073"

text \<open>
  A code store in which \<^verbatim>\<open>Math.random()\<close> returns 0.5 twice: the code is generated,
  redeemed, and generated again.
\<close>

definition ex_cd_generated :: CodeAuth where
  "ex_cd_generated = snd (cd_generateCode ex_half 1000 ex_cd0)"

definition ex_cd_redeemed :: CodeAuth where
  "ex_cd_redeemed = snd (cd_handleAuth ex_quiet ''550000'' (ex_user 1) ex_cd_generated)"

definition ex_cd_regenerated :: CodeAuth where
  "ex_cd_regenerated = snd (cd_generateCode ex_half 2000 ex_cd_redeemed)"

definition ex_tf_good_ops :: "tf_op list" where
  "ex_tf_good_ops = [Start2FA (UidStr ''42'') None False ex_half [] 1000 1000,
     Verify2FA (UidStr ''42'') (tf_generateCode 6 ex_half []) 2000]"

text \<open>
  Stand-ins for the two platform primitives, used only to evaluate examples: the
  "hash" of a token is the token and the "digest" is key, colon, message.
\<close>

definition toy_crypto :: crypto where
  "toy_crypto = \<lparr>sha256 = (\<lambda>s. s), hmac_sha256_hex = (\<lambda>key s. key @ '':'' @ s)\<rparr>"

definition ex_fields :: "(string \<times> jsval) list" where
  "ex_fields = [(''id'', JNum 777), (''first_name'', JStr ''Ann''), (''last_name'', JStr ''''),
     (''username'', JStr ''ann''), (''auth_date'', JNum 1700000000)]"

text \<open>A payload with a wrong hash, and the same fields with the hash the stand-ins compute.\<close>

definition ex_payload :: "(string \<times> jsval) list" where
  "ex_payload = ex_fields @ [(''hash'', JStr ''abc123'')]"

definition ex_payload_signed :: "(string \<times> jsval) list" where
  "ex_payload_signed = ex_fields @
     [(''hash'', JStr (''123:abc:auth_date=1700000000'' @ [CHR 0x0A] @ ''first_name=Ann'' @ [CHR 0x0A]
        @ ''id=777'' @ [CHR 0x0A] @ ''username=ann''))]"

text \<open>The payload \<open>ex_payload\<close> with \<^verbatim>\<open>last_name: false\<close> in place of \<^verbatim>\<open>last_name: ''\<close>.\<close>

definition ex_payload_altered :: "(string \<times> jsval) list" where
  "ex_payload_altered = [(''id'', JNum 777), (''first_name'', JStr ''Ann''), (''last_name'', JBool False),
     (''username'', JStr ''ann''), (''auth_date'', JNum 1700000000), (''hash'', JStr ''abc123'')]"

definition ex_w_opts :: "bool option \<Rightarrow> string option \<Rightarrow> WidgetAuthOptions" where
  "ex_w_opts validate tok = \<lparr>transport = Some [Callback], restEndpoint = None, wsServer = False,
     onAuth = True, saveHandler = False, botSettings = None, botToken = tok, botUsername = None,
     validateSignature = validate\<rparr>"

definition ex_widget :: "bool \<Rightarrow> string option \<Rightarrow> WidgetAuth" where
  "ex_widget validate tok = \<lparr>wa_options = ex_w_opts (Some validate) tok, wa_effects = []\<rparr>"

text \<open>Options that carry neither bot settings nor a bot token.\<close>

definition ex_no_creds :: AuthTransportOptions where
  "ex_no_creds = \<lparr>transport = Some [Callback], restEndpoint = None, wsServer = False, onAuth = True,
     saveHandler = False, botSettings = None, botToken = None, botUsername = None\<rparr>"

definition ex_tf_no_creds :: TwoFAOptions where
  "ex_tf_no_creds = \<lparr>transport = Some [Callback], restEndpoint = None, wsServer = False, onAuth = True,
     saveHandler = False, botSettings = None, botToken = None, botUsername = None,
     codeLifetime = None, codeLength = None, maxAttempts = None\<rparr>"

text \<open>A session manager with a lifetime of 1000 ms that holds one session, saved at creation.\<close>

definition ex_session :: Session where
  "ex_session = \<lparr>sm_id = ''s1'', sm_userData = ex_user 1, sm_createdAt = 0, sm_lastActivity = 0,
     sm_metadata = None\<rparr>"

definition ex_sm :: SessionManager where
  "ex_sm = snd (createSession ''s1'' 0 (ex_user 1) None (SessionManager_new (Some 1000)))"

section \<open>The code generators\<close>

lemma sig_shift_le: "n < 2 ^ b \<Longrightarrow> sig_shift n \<le> b - 53"
  unfolding sig_shift_def by (simp add: floorlog_le_iff diff_le_mono)

lemma sig_shift_eq:
  assumes "2 ^ (b - 1) \<le> n" "n < 2 ^ b"
  shows "sig_shift n = b - 53"
proof -
  have "floorlog 2 n \<le> b" using assms by (simp add: floorlog_le_iff)
  moreover have "b \<le> floorlog 2 n" using assms by (intro floorlog_geI) simp_all
  ultimately show ?thesis by (simp add: sig_shift_def)
qed

lemma round_double_le:
  assumes "n \<le> B" "2 ^ sig_shift n dvd B"
  shows "round_double n \<le> B"
proof -
  define s where "s = sig_shift n"
  define q where "q = n div 2 ^ s"
  define r where "r = n mod 2 ^ s"
  obtain k where k: "B = 2 ^ s * k" using assms(2) unfolding s_def by (auto simp: dvd_def)
  have n: "n = q * 2 ^ s + r" unfolding q_def r_def by (rule div_mult_mod_eq [symmetric])
  show ?thesis
  proof (cases "r = 0")
    case True
    then have "round_double n = n"
      using n unfolding round_double_def Let_def s_def[symmetric] q_def[symmetric] r_def[symmetric]
      by simp
    with assms show ?thesis by simp
  next
    case False
    have "B = k * 2 ^ s" using k by (simp add: mult.commute)
    with False n assms(1) have "q * 2 ^ s < k * 2 ^ s" by linarith
    then have "q < k" by simp
    then have "q + 1 \<le> k" by simp
    then have a: "(q + 1) * 2 ^ s \<le> k * 2 ^ s" by (rule mult_le_mono1)
    have b: "round_double n \<le> (q + 1) * 2 ^ s"
      unfolding round_double_def Let_def s_def[symmetric] q_def[symmetric] r_def[symmetric]
      by simp
    from b a have "round_double n \<le> k * 2 ^ s" by (rule le_trans)
    then show ?thesis using k by (simp add: mult.commute)
  qed
qed

lemma round_double_ge:
  assumes "A \<le> n" "2 ^ sig_shift n dvd A"
  shows "A \<le> round_double n"
proof -
  define s where "s = sig_shift n"
  define q where "q = n div 2 ^ s"
  obtain k where k: "A = 2 ^ s * k" using assms(2) unfolding s_def by (auto simp: dvd_def)
  have "k * 2 ^ s \<le> n" using assms(1) k by (simp add: mult.commute)
  then have "k \<le> q" unfolding q_def by (simp add: less_eq_div_iff_mult_less_eq)
  then have a: "k * 2 ^ s \<le> q * 2 ^ s" by (rule mult_le_mono1)
  have b: "q * 2 ^ s \<le> round_double n"
    unfolding round_double_def Let_def s_def[symmetric] q_def[symmetric]
    by simp
  from a b have "k * 2 ^ s \<le> round_double n" by (rule le_trans)
  then show ?thesis using k by (simp add: mult.commute)
qed

lemma round_double_down:
  assumes "sig_shift n = s" "q * 2 ^ s \<le> n" "2 * (n - q * 2 ^ s) < 2 ^ s"
  shows "round_double n = q * 2 ^ s"
proof -
  have lt: "n < (q + 1) * 2 ^ s" using assms(2,3) by simp
  have q: "n div 2 ^ s = q"
    using assms(2) lt by (intro div_nat_eqI) (simp_all add: mult.commute)
  have r: "n mod 2 ^ s = n - q * 2 ^ s"
    using q by (metis minus_div_mult_eq_mod)
  show ?thesis
    unfolding round_double_def Let_def assms(1) q r using assms(3) by simp
qed

lemma is_double_bound:
  assumes "is_double m" "m < 2 ^ p" "53 \<le> p"
  shows "m \<le> (2 ^ 53 - 1) * 2 ^ (p - 53)"
proof (cases "m = 0")
  case True
  then show ?thesis by simp
next
  case False
  define s where "s = sig_shift m"
  define b where "b = floorlog 2 m"
  have mb: "m < 2 ^ b" unfolding b_def using False floorlog_bounds[of m 2] by simp
  have "b \<le> 53 + s" unfolding s_def sig_shift_def b_def by simp
  then have "(2::nat) ^ b \<le> 2 ^ (53 + s)" by (simp add: power_increasing)
  with mb have m53: "m < 2 ^ 53 * 2 ^ s" by (simp add: power_add)
  from assms(1) obtain k where k: "m = k * 2 ^ s"
    unfolding is_double_def s_def[symmetric] by (auto simp: mod_eq_0_iff_dvd dvd_def mult.commute)
  with m53 have "k < 2 ^ 53" by simp
  then have "k \<le> 2 ^ 53 - 1" by simp
  then have a: "k * 2 ^ s \<le> (2 ^ 53 - 1) * 2 ^ s" by (rule mult_le_mono1)
  have "s \<le> p - 53" unfolding s_def using assms(2) by (rule sig_shift_le)
  then have "(2::nat) ^ s \<le> 2 ^ (p - 53)" by (simp add: power_increasing)
  then have "(2 ^ 53 - 1) * (2::nat) ^ s \<le> (2 ^ 53 - 1) * 2 ^ (p - 53)" by (rule mult_le_mono2)
  with a k show ?thesis by linarith
qed

lemma floor_range_general:
  fixes lo width E p m :: nat
  assumes E: "2 ^ E < width" "lo + width < 2 ^ (E + 1)" "E \<le> 52"
    and p: "53 \<le> p"
    and m: "m \<le> (2 ^ 53 - 1) * 2 ^ (p - 53)"
  shows "lo \<le> round_double (lo * 2 ^ p + round_double (m * width)) div 2 ^ p
       \<and> round_double (lo * 2 ^ p + round_double (m * width)) div 2 ^ p < lo + width"
proof -
  define U :: nat where "U = 2 ^ p"
  define s where "s = E + p - 52"
  define g :: nat where "g = 2 ^ s"
  define W53 where "W53 = width * 2 ^ (p - 53)"
  define WU where "WU = width * U"
  define N where "N = m * width"
  define Q where "Q = width * 2 ^ (52 - E) - 1"
  define B1 where "B1 = Q * g"
  define R where "R = round_double N"
  define M where "M = lo * U + R"
  have Upos: "0 < U" by (simp add: U_def)
  have gpos: "0 < g" by (simp add: g_def)
  have Ug: "U = 2 ^ (52 - E) * g"
    unfolding U_def g_def s_def using E(3) p by (simp add: power_add [symmetric])
  have g_dvd_U: "g dvd U" using Ug by simp
  have g_le_U: "g \<le> U" using g_dvd_U Upos by (rule dvd_imp_le)
  have U53: "U = 2 ^ 53 * 2 ^ (p - 53)"
  proof -
    have "53 + (p - 53) = p" using p by simp
    then have "(2::nat) ^ p = 2 ^ (53 + (p - 53))" by simp
    then show ?thesis unfolding U_def by (simp only: power_add)
  qed
  have gE: "g = 2 ^ E * 2 ^ (p - 52)"
    unfolding g_def s_def using p by (simp add: power_add [symmetric])
  have W53_2: "2 * W53 = width * 2 ^ (p - 52)"
  proof -
    have "p - 52 = Suc (p - 53)" using p by simp
    then show ?thesis by (simp add: W53_def)
  qed
  have g_lt: "g < 2 * W53"
    unfolding W53_2 gE using E(1) by simp
  have wpos: "0 < width" using E(1) by (cases width) simp_all
  have Q1: "Q + 1 = width * 2 ^ (52 - E)"
    unfolding Q_def using wpos by simp
  have B1g: "B1 + g = WU"
  proof -
    have "B1 + g = (Q + 1) * g" by (simp add: B1_def)
    also have "\<dots> = width * (2 ^ (52 - E) * g)" by (simp only: Q1 mult.assoc)
    finally show ?thesis by (simp add: WU_def Ug)
  qed
  have NW: "N + W53 \<le> WU"
  proof -
    have "m + 2 ^ (p - 53) \<le> U"
      using m unfolding U53 by (simp add: algebra_simps)
    then have "(m + 2 ^ (p - 53)) * width \<le> U * width" by (rule mult_le_mono1)
    then show ?thesis by (simp add: N_def W53_def WU_def algebra_simps)
  qed
  have w_lt: "width < 2 ^ (E + 1)" using E(2) by simp
  have WU_lt: "WU < 2 ^ (E + 1 + p)"
  proof -
    have "width * U < 2 ^ (E + 1) * U" using w_lt Upos by simp
    then show ?thesis by (simp add: WU_def U_def power_add)
  qed
  have WU_ge: "2 ^ (E + p) + U \<le> WU"
  proof -
    have "2 ^ E + 1 \<le> width" using E(1) by simp
    then have "(2 ^ E + 1) * U \<le> width * U" by (rule mult_le_mono1)
    then show ?thesis by (simp add: WU_def U_def power_add algebra_simps)
  qed
  have s_eq: "E + 1 + p - 53 = s" unfolding s_def by simp
  have g_dvd_B1: "g dvd B1" by (simp add: B1_def)
  have R_le: "R \<le> B1"
  proof (cases "N \<le> B1")
    case True
    have "N < 2 ^ (E + 1 + p)" using True B1g WU_lt by linarith
    then have "sig_shift N \<le> s" using sig_shift_le[of N "E + 1 + p"] s_eq by simp
    then have "2 ^ sig_shift N dvd g" unfolding g_def by (rule le_imp_power_dvd)
    then have "2 ^ sig_shift N dvd B1" using g_dvd_B1 by (rule dvd_trans)
    with True show ?thesis unfolding R_def by (rule round_double_le)
  next
    case False
    have lt: "N < 2 ^ (E + 1 + p)" using NW WU_lt by linarith
    have "2 ^ (E + p) \<le> B1" using WU_ge B1g g_le_U by linarith
    then have ge: "2 ^ (E + 1 + p - 1) \<le> N" using False by simp
    have ss: "sig_shift N = s" using sig_shift_eq[OF ge lt] s_eq by simp
    have a: "Q * 2 ^ s \<le> N" using False by (simp add: B1_def g_def)
    have "2 * (N - B1) < g" using False NW B1g g_lt by linarith
    then have b: "2 * (N - Q * 2 ^ s) < 2 ^ s" by (simp add: B1_def g_def)
    have "round_double N = Q * 2 ^ s" using ss a b by (rule round_double_down)
    then show ?thesis by (simp add: R_def B1_def g_def)
  qed
  have LW: "lo * U + WU = (lo + width) * U" by (simp add: WU_def algebra_simps)
  have LW_lt: "(lo + width) * U < 2 ^ (E + 1 + p)"
  proof -
    have "(lo + width) * U < 2 ^ (E + 1) * U" using E(2) Upos by simp
    then show ?thesis by (simp add: U_def power_add)
  qed
  have M_lt: "M < 2 ^ (E + 1 + p)" using R_le B1g LW LW_lt gpos unfolding M_def by linarith
  have sM: "sig_shift M \<le> s" using sig_shift_le[OF M_lt] s_eq by simp
  have dg: "2 ^ sig_shift M dvd g" unfolding g_def using sM by (rule le_imp_power_dvd)
  have dU: "2 ^ sig_shift M dvd U" using dg g_dvd_U by (rule dvd_trans)
  have lower: "lo * U \<le> round_double M"
  proof (rule round_double_ge)
    show "lo * U \<le> M" by (simp add: M_def)
    show "2 ^ sig_shift M dvd lo * U" using dU by simp
  qed
  define B2 where "B2 = lo * U + B1"
  have upper: "round_double M \<le> B2"
  proof (rule round_double_le)
    show "M \<le> B2" using R_le by (simp add: M_def B2_def)
    have "g dvd B2" unfolding B2_def using g_dvd_U g_dvd_B1 by simp
    with dg show "2 ^ sig_shift M dvd B2" by (rule dvd_trans)
  qed
  have B2_lt: "B2 < (lo + width) * U" using B1g LW gpos unfolding B2_def by linarith
  have "lo * U div U \<le> round_double M div U" using lower by (rule div_le_mono)
  then have c1: "lo \<le> round_double M div U" using Upos by simp
  have "round_double M < (lo + width) * U" using upper B2_lt by linarith
  then have c2: "round_double M div U < lo + width" using Upos
    by (simp add: less_mult_imp_div_less)
  from c1 c2 show ?thesis by (simp add: M_def R_def N_def U_def)
qed

lemma is_random_bound: "is_random m \<Longrightarrow> m \<le> (2 ^ 53 - 1) * 2 ^ (1074 - 53)"
  unfolding is_random_def by (intro is_double_bound) simp_all

lemma floor_range_at:
  assumes "is_random m" "2 ^ E < width" "lo + width < 2 ^ (E + 1)" "E \<le> 52"
  shows "lo \<le> floor_lo_plus_random_times lo width m
       \<and> floor_lo_plus_random_times lo width m < lo + width"
  unfolding floor_lo_plus_random_times_def
  using assms(2-4) _ is_random_bound[OF assms(1)]
  by (rule floor_range_general) simp

lemma code_range_cases:
  assumes "is_random m"
  shows "1 \<le> floor_lo_plus_random_times 1 9 m \<and> floor_lo_plus_random_times 1 9 m < 10"
    and "10 \<le> floor_lo_plus_random_times 10 90 m \<and> floor_lo_plus_random_times 10 90 m < 100"
    and "100 \<le> floor_lo_plus_random_times 100 900 m \<and> floor_lo_plus_random_times 100 900 m < 1000"
    and "1000 \<le> floor_lo_plus_random_times 1000 9000 m \<and> floor_lo_plus_random_times 1000 9000 m < 10000"
    and "10000 \<le> floor_lo_plus_random_times 10000 90000 m
         \<and> floor_lo_plus_random_times 10000 90000 m < 100000"
    and "100000 \<le> floor_lo_plus_random_times 100000 900000 m
         \<and> floor_lo_plus_random_times 100000 900000 m < 1000000"
    and "1000000 \<le> floor_lo_plus_random_times 1000000 9000000 m
         \<and> floor_lo_plus_random_times 1000000 9000000 m < 10000000"
    and "10000000 \<le> floor_lo_plus_random_times 10000000 90000000 m
         \<and> floor_lo_plus_random_times 10000000 90000000 m < 100000000"
  using floor_range_at[OF assms, where E = 3 and lo = 1 and width = 9]
    floor_range_at[OF assms, where E = 6 and lo = 10 and width = 90]
    floor_range_at[OF assms, where E = 9 and lo = 100 and width = 900]
    floor_range_at[OF assms, where E = 13 and lo = 1000 and width = 9000]
    floor_range_at[OF assms, where E = 16 and lo = 10000 and width = 90000]
    floor_range_at[OF assms, where E = 19 and lo = 100000 and width = 900000]
    floor_range_at[OF assms, where E = 23 and lo = 1000000 and width = 9000000]
    floor_range_at[OF assms, where E = 26 and lo = 10000000 and width = 90000000]
  by simp_all

lemma code_number_range:
  assumes "1 \<le> L" "L \<le> 8" "is_random m"
  shows "10 ^ (L - 1) \<le> floor_lo_plus_random_times (10 ^ (L - 1)) (10 ^ L - 1 - 10 ^ (L - 1) + 1) m
       \<and> floor_lo_plus_random_times (10 ^ (L - 1)) (10 ^ L - 1 - 10 ^ (L - 1) + 1) m < 10 ^ L"
proof -
  from assms(1,2) consider "L = 1" | "L = 2" | "L = 3" | "L = 4" | "L = 5" | "L = 6" | "L = 7" | "L = 8"
    by linarith
  then show ?thesis
    using code_range_cases[OF assms(3)] by cases simp_all
qed

lemma digit_cases: "d < 10 \<Longrightarrow> d \<in> {0, 1, 2, 3, 4, 5, 6, 7, 8, 9 :: nat}"
  by auto

lemma digit_char_facts:
  assumes "d < 10"
  shows "digit_val (digit_char d) = Some d"
    and "digit_char d \<in> set ''0123456789''"
    and "\<not> is_space (digit_char d)"
    and "digit_char d \<noteq> CHR ''-''" and "digit_char d \<noteq> CHR ''+''"
    and "digit_char d \<noteq> CHR ''x''" and "digit_char d \<noteq> CHR ''X''"
  using digit_cases[OF assms] by (auto simp: digit_char_def digit_val_def is_space_def)

lemma is_digit_char: "d < 10 \<Longrightarrow> is_digit_of 10 (digit_char d)"
  by (simp add: is_digit_of_def digit_char_facts(1))

lemma show_nat_digits: "c \<in> set (show_nat n) \<Longrightarrow> \<exists>d<10. c = digit_char d"
proof (induction n rule: show_nat.induct)
  case (1 n)
  then show ?case by auto
next
  case (2 n)
  have "n mod 10 < 10" by simp
  then have "\<exists>d<10. digit_char (n mod 10) = digit_char d" by blast
  with 2 show ?case by auto
qed

lemma show_nat_nonempty: "show_nat n \<noteq> []"
  by (cases "n < 10") simp_all

lemma takeWhile_show_nat: "takeWhile (is_digit_of 10) (show_nat n) = show_nat n"
  using show_nat_digits is_digit_char by (fastforce simp: takeWhile_eq_all_conv)

lemma digits_val_snoc: "digits_val r (xs @ [c]) = digits_val r xs * r + the (digit_val c)"
  by (simp add: digits_val_def)

lemma digits_val_show_nat: "digits_val 10 (show_nat n) = n"
proof (induction n rule: show_nat.induct)
  case (1 n)
  then show ?case by (simp add: digits_val_def digit_char_facts(1))
next
  case (2 n)
  have "n mod 10 < 10" by simp
  then have "digit_val (digit_char (n mod 10)) = Some (n mod 10)" by (rule digit_char_facts(1))
  with 2 show ?case by (simp add: digits_val_snoc)
qed

lemma parse_digits_show_nat: "parse_digits 10 (show_nat n) = Some n"
  by (simp add: parse_digits_def takeWhile_show_nat show_nat_nonempty digits_val_show_nat)

lemma parse_unsigned_show_nat: "parse_unsigned (show_nat n) = Some n"
proof -
  have "\<And>c0 c1 rest. show_nat n = c0 # c1 # rest \<Longrightarrow> c1 \<noteq> CHR ''x'' \<and> c1 \<noteq> CHR ''X''"
  proof -
    fix c0 c1 rest assume "show_nat n = c0 # c1 # rest"
    then have "c1 \<in> set (show_nat n)" by simp
    then obtain d where "d < 10" "c1 = digit_char d" using show_nat_digits by blast
    then show "c1 \<noteq> CHR ''x'' \<and> c1 \<noteq> CHR ''X''" by (simp add: digit_char_facts)
  qed
  then have "parse_unsigned (show_nat n) = parse_digits 10 (show_nat n)"
    by (auto simp: parse_unsigned_def split: list.splits)
  then show ?thesis by (simp add: parse_digits_show_nat)
qed

lemma parseInt_show_nat: "parseInt (JStr (show_nat n)) = Some (int n)"
proof -
  obtain c rest where cr: "show_nat n = c # rest"
    using show_nat_nonempty by (cases "show_nat n") auto
  then have "c \<in> set (show_nat n)" by simp
  then obtain d where d: "d < 10" "c = digit_char d" using show_nat_digits by blast
  have "dropWhile is_space (show_nat n) = c # rest"
    using cr d by (simp add: digit_char_facts)
  moreover have "c \<noteq> CHR ''-''" "c \<noteq> CHR ''+''" using d by (simp_all add: digit_char_facts)
  ultimately show ?thesis
    using parse_unsigned_show_nat[of n] cr by (simp add: parseInt_def parseInt_str_def)
qed

lemma length_show_nat: "0 < L \<Longrightarrow> 10 ^ (L - 1) \<le> n \<Longrightarrow> n < 10 ^ L \<Longrightarrow> length (show_nat n) = L"
proof (induction L arbitrary: n)
  case 0
  then show ?case by simp
next
  case (Suc L)
  show ?case
  proof (cases "L = 0")
    case True
    with Suc.prems show ?thesis by simp
  next
    case False
    then obtain L' where L': "L = Suc L'" by (cases L) auto
    have "10 \<le> (10::nat) ^ L" using L' by simp
    with Suc.prems have n10: "\<not> n < 10" by simp
    have a: "10 ^ (L - 1) \<le> n div 10"
      using Suc.prems(2) L' by (simp add: less_eq_div_iff_mult_less_eq)
    have b: "n div 10 < 10 ^ L"
      using Suc.prems(3) by (simp add: less_mult_imp_div_less)
    from False a b have "length (show_nat (n div 10)) = L" by (intro Suc.IH) simp_all
    with n10 show ?thesis by simp
  qed
qed

text \<open>
  The rounding function on three sums as JavaScript computes them:
  \<^verbatim>\<open>2 ** 53 + 1\<close> is \<^verbatim>\<open>9007199254740992\<close>, \<^verbatim>\<open>2 ** 53 + 3\<close> is
  \<^verbatim>\<open>9007199254740996\<close>, and \<^verbatim>\<open>0.1 + 0.2\<close> is \<^verbatim>\<open>0.30000000000000004\<close>, the double
  \<open>5404319552844596 / 2 ^ 54\<close>; the doubles \<^verbatim>\<open>0.1\<close> and \<^verbatim>\<open>0.2\<close> are
  \<open>3602879701896397 / 2 ^ 55\<close> and \<open>3602879701896397 / 2 ^ 54\<close>.
\<close>

lemma round_double_ties_to_even:
  "round_double (9007199254740992 + 1) = 9007199254740992"
  "round_double (9007199254740992 + 3) = 9007199254740996"
proof -
  have "sig_shift 9007199254740993 = 54 - 53" "sig_shift 9007199254740995 = 54 - 53"
    by (rule sig_shift_eq; simp)+
  then show "round_double (9007199254740992 + 1) = 9007199254740992"
    "round_double (9007199254740992 + 3) = 9007199254740996"
    by (simp_all add: round_double_def Let_def)
qed

lemma round_double_tenth_plus_fifth:
  "round_double (3602879701896397 * 2 ^ 1019 + 3602879701896397 * 2 ^ 1020)
     = 5404319552844596 * 2 ^ 1020"
proof -
  have e: "3602879701896397 * 2 ^ 1019 + 3602879701896397 * 2 ^ 1020
      = (10808639105689191 * 2 ^ 1019 :: nat)" by simp
  have s: "sig_shift (10808639105689191 * 2 ^ 1019) = 1073 - 53"
    by (rule sig_shift_eq) simp_all
  show ?thesis unfolding e round_double_def Let_def s by simp
qed

lemma round_double_exact: "is_double n \<Longrightarrow> round_double n = n"
  unfolding is_double_def round_double_def Let_def
  by (simp add: mod_eq_0_iff_dvd)

lemma ex_half_random: "is_random (2 ^ 1073)"
proof -
  have "sig_shift (2 ^ 1073) = 1074 - 53"
    by (rule sig_shift_eq) simp_all
  then show ?thesis by (simp add: is_random_def is_double_def)
qed

lemma ex_half_product: "round_double (2 ^ 1073 * 900000) = 2 ^ 1073 * 900000"
proof -
  have "sig_shift (2 ^ 1073 * 900000) = 1093 - 53"
    by (rule sig_shift_eq) simp_all
  then have "is_double (2 ^ 1073 * 900000)" by (simp add: is_double_def)
  then show ?thesis by (rule round_double_exact)
qed

lemma ex_half_sum: "round_double (100000 * 2 ^ 1074 + 2 ^ 1073 * 900000) = 550000 * 2 ^ 1074"
proof -
  have e: "100000 * 2 ^ 1074 + 2 ^ 1073 * 900000 = (550000 * 2 ^ 1074 :: nat)" by simp
  have "sig_shift (550000 * 2 ^ 1074) = 1094 - 53"
    by (rule sig_shift_eq) simp_all
  then have "is_double (550000 * 2 ^ 1074)" by (simp add: is_double_def)
  then show ?thesis unfolding e by (rule round_double_exact)
qed

lemma ex_half_floor: "floor_lo_plus_random_times 100000 900000 ex_half = 550000"
  unfolding floor_lo_plus_random_times_def ex_half_def ex_half_product ex_half_sum by simp

lemma ex_half_code: "tf_generateCode 6 ex_half bytes = ''550000''"
  by (simp add: tf_generateCode_def ex_half_floor digit_char_def)

lemma tf_new_codeLength:
  "TwoFAAuth_new opts = Inr a \<Longrightarrow> codeLength opts = None \<Longrightarrow> tf_codeLength a = 6"
  by (auto simp: TwoFAAuth_new_def or_default_def split: sum.splits)

text \<open>
  Claim C8. For a requested length \<open>L\<close> from 1 to 8 and every double that
  \<^verbatim>\<open>Math.random()\<close> can return, the generated code is the decimal rendering of a
  number \<open>n\<close> with \<open>10 ^ (L - 1) \<le> n \<le> 10 ^ L - 1\<close>; read back as an integer
  it is \<open>n\<close>, and it has exactly \<open>L\<close> characters. A store constructed without
  \<^verbatim>\<open>codeLength\<close> returns a six-digit code from \<open>start2FA\<close>.
\<close>

theorem numeric_code_has_requested_length:
  "(1 \<le> L \<and> L \<le> 8 \<and> is_random m \<longrightarrow>
      (\<exists>n. tf_generateCode L m bytes = show_nat n
           \<and> parseInt (JStr (tf_generateCode L m bytes)) = Some (int n)
           \<and> 10 ^ (L - 1) \<le> n \<and> n \<le> 10 ^ L - 1)
      \<and> length (tf_generateCode L m bytes) = L)
   \<and> (TwoFAAuth_new opts = Inr a \<and> codeLength opts = None \<and> is_random m \<longrightarrow>
      (\<exists>n. parseInt (JStr (fst (start2FA uid ud sm m bytes t1 t2 a))) = Some (int n)
           \<and> 100000 \<le> n \<and> n \<le> 999999)
      \<and> length (fst (start2FA uid ud sm m bytes t1 t2 a)) = 6)"
proof -
  have gen: "(\<exists>n. tf_generateCode L m bytes = show_nat n
           \<and> parseInt (JStr (tf_generateCode L m bytes)) = Some (int n)
           \<and> 10 ^ (L - 1) \<le> n \<and> n \<le> 10 ^ L - 1)
      \<and> length (tf_generateCode L m bytes) = L"
    if h: "1 \<le> L" "L \<le> 8" "is_random m" for L m bytes
  proof -
    define n where "n = floor_lo_plus_random_times (10 ^ (L - 1)) (10 ^ L - 1 - 10 ^ (L - 1) + 1) m"
    have r: "10 ^ (L - 1) \<le> n \<and> n < 10 ^ L"
      unfolding n_def using h by (rule code_number_range)
    have c: "tf_generateCode L m bytes = show_nat n"
      using h(2) by (simp add: tf_generateCode_def n_def Let_def)
    have "length (show_nat n) = L" using h(1) r by (intro length_show_nat) simp_all
    moreover have "n \<le> 10 ^ L - 1" using r by linarith
    ultimately show ?thesis using r c parseInt_show_nat[of n] by auto
  qed
  show ?thesis
  proof (intro conjI impI)
    assume "1 \<le> L \<and> L \<le> 8 \<and> is_random m"
    then show "\<exists>n. tf_generateCode L m bytes = show_nat n
           \<and> parseInt (JStr (tf_generateCode L m bytes)) = Some (int n)
           \<and> 10 ^ (L - 1) \<le> n \<and> n \<le> 10 ^ L - 1"
      and "length (tf_generateCode L m bytes) = L"
      using gen[of L m bytes] by blast+
  next
    assume h: "TwoFAAuth_new opts = Inr a \<and> codeLength opts = None \<and> is_random m"
    then have six: "tf_codeLength a = 6" using tf_new_codeLength by blast
    have s: "fst (start2FA uid ud sm m bytes t1 t2 a) = tf_generateCode 6 m bytes"
      by (simp add: start2FA_def Let_def six)
    from h gen[of 6 m bytes]
    show "\<exists>n. parseInt (JStr (fst (start2FA uid ud sm m bytes t1 t2 a))) = Some (int n)
           \<and> 100000 \<le> n \<and> n \<le> 999999"
      and "length (fst (start2FA uid ud sm m bytes t1 t2 a)) = 6"
      unfolding s by auto
  qed
qed

theorem numeric_code_has_requested_length_witness:
  "(1::nat) \<le> 6 \<and> (6::nat) \<le> 8 \<and> is_random ex_half
   \<and> tf_generateCode 6 ex_half [] = ''550000''
   \<and> parseInt (JStr (tf_generateCode 6 ex_half [])) = Some 550000
   \<and> length (tf_generateCode 6 ex_half []) = 6
   \<and> TwoFAAuth_new ex_tf_opts = Inr ex_tf0 \<and> codeLength ex_tf_opts = None
   \<and> length (fst (start2FA (UidStr ''42'') None False ex_half [] 1000 1000 ex_tf0)) = 6"
proof -
  have r: "is_random ex_half"
    unfolding ex_half_def by (rule ex_half_random)
  have n: "TwoFAAuth_new ex_tf_opts = Inr ex_tf0"
    by (simp add: TwoFAAuth_new_def resolveBotSettings_def ex_tf_opts_def ex_tf0_def
        ex_settings_def or_default_def)
  have o: "codeLength ex_tf_opts = None"
    by (simp add: ex_tf_opts_def)
  note T = numeric_code_has_requested_length [where L = 6 and m = ex_half and bytes = "[]"
      and opts = ex_tf_opts and a = ex_tf0 and uid = "UidStr ''42''" and ud = None and sm = False
      and ?t1.0 = 1000 and ?t2.0 = 1000]
  from T r have c1: "length (tf_generateCode 6 ex_half []) = 6"
    by simp
  from T r n o have c2: "length (fst (start2FA (UidStr ''42'') None False ex_half [] 1000 1000 ex_tf0)) = 6"
    by blast
  have c3: "parseInt (JStr (tf_generateCode 6 ex_half [])) = Some 550000"
    using parseInt_show_nat[of 550000] by (simp add: ex_half_code digit_char_def)
  from r n o c1 c2 c3 show ?thesis
    by (simp add: ex_half_code)
qed

section \<open>Redemption of deeplink tokens and codes\<close>

lemma run_calls_quiet: "run_calls ex_quiet cs = (cs, False)"
  by (induction cs) (simp_all add: ex_quiet_def)

lemma dl_first:
  "dl_sessions a tok = Some s \<Longrightarrow> \<not> dl_used s \<Longrightarrow>
   \<not> snd (sendResult_basic throws (dl_options a) u) \<Longrightarrow>
   fst (dl_handleAuth throws tok u a) = Inr True \<and>
   dl_sessions (snd (dl_handleAuth throws tok u a)) tok =
     Some (s\<lparr>dl_used := True, dl_userData := Some u\<rparr>)"
  by (simp add: dl_handleAuth_def Let_def)

lemma dl_spent_handle: "dl_spent tok a \<Longrightarrow> dl_handleAuth throws tok u a = (Inr False, a)"
  by (auto simp: dl_spent_def dl_handleAuth_def split: option.splits)

lemma dl_handled_spent: "dl_spent tok (snd (dl_handleAuth throws tok u a))"
  by (auto simp: dl_spent_def dl_handleAuth_def Let_def split: option.splits)

lemma dl_spent_step:
  "dl_spent tok a \<Longrightarrow> \<not> dl_generates tok x \<Longrightarrow> dl_spent tok (dl_step throws a x)"
  by (cases x)
    (auto simp: dl_spent_def generateDeeplink_def dl_handleAuth_def invalidateDeeplink_def Let_def
      split: option.splits)

lemma dl_spent_run:
  "dl_spent tok a \<Longrightarrow> \<not> list_ex (dl_generates tok) ops \<Longrightarrow> dl_spent tok (dl_run throws a ops)"
  unfolding dl_run_def
  by (induction ops arbitrary: a) (auto simp: dl_spent_step)

lemma dl_new_spent: "DeeplinkAuth_new opts = Inr a \<Longrightarrow> dl_spent tok a"
  by (auto simp: DeeplinkAuth_new_def dl_spent_def split: sum.splits)

lemma cd_first:
  "cd_sessions a code = Some s \<Longrightarrow> \<not> cd_used s \<Longrightarrow>
   \<not> snd (sendResult_basic throws (cd_options a) u) \<Longrightarrow>
   fst (cd_handleAuth throws code u a) = Inr True \<and>
   cd_sessions (snd (cd_handleAuth throws code u a)) code =
     Some (s\<lparr>cd_used := True, cd_userData := Some u\<rparr>)"
  by (simp add: cd_handleAuth_def Let_def)

lemma cd_spent_handle: "cd_spent code a \<Longrightarrow> cd_handleAuth throws code u a = (Inr False, a)"
  by (auto simp: cd_spent_def cd_handleAuth_def split: option.splits)

lemma cd_handled_spent: "cd_spent code (snd (cd_handleAuth throws code u a))"
  by (auto simp: cd_spent_def cd_handleAuth_def Let_def split: option.splits)

lemma cd_spent_step:
  "cd_spent code a \<Longrightarrow> \<not> cd_generates code x \<Longrightarrow> cd_spent code (cd_step throws a x)"
  by (cases x)
    (auto simp: cd_spent_def cd_generateCode_def Let_def cd_handleAuth_def invalidateCode_def
      split: option.splits)

lemma cd_spent_run:
  "cd_spent code a \<Longrightarrow> \<not> list_ex (cd_generates code) ops \<Longrightarrow> cd_spent code (cd_run throws a ops)"
  unfolding cd_run_def
  by (induction ops arbitrary: a) (auto simp: cd_spent_step)

lemma cd_new_spent: "CodeAuth_new opts = Inr a \<Longrightarrow> cd_spent code a"
  by (auto simp: CodeAuth_new_def cd_spent_def split: sum.splits)

text \<open>
  What the two stores do guarantee. A redemption of a registered, unused value whose
  handlers return gives true, marks the session used and stores the identity. After
  any call of \<open>handleAuth\<close> on a value, returned or thrown, every later redemption of
  that value returns false for as long as no call generates the value again; so does
  every redemption in a store that never generated it.
\<close>

lemma single_use_between_generations:
  fixes a a0 :: DeeplinkAuth and c c0 :: CodeAuth
  shows "\<not> list_ex (dl_generates tok) ops \<Longrightarrow>
      fst (dl_handleAuth throws tok u' (dl_run throws (snd (dl_handleAuth throws tok u a)) ops)) = Inr False"
    and "DeeplinkAuth_new opts = Inr a0 \<Longrightarrow> \<not> list_ex (dl_generates tok) ops \<Longrightarrow>
      fst (dl_handleAuth throws tok u (dl_run throws a0 ops)) = Inr False"
    and "\<not> list_ex (cd_generates code) cops \<Longrightarrow>
      fst (cd_handleAuth throws code u' (cd_run throws (snd (cd_handleAuth throws code u c)) cops)) = Inr False"
    and "CodeAuth_new opts = Inr c0 \<Longrightarrow> \<not> list_ex (cd_generates code) cops \<Longrightarrow>
      fst (cd_handleAuth throws code u (cd_run throws c0 cops)) = Inr False"
  by (simp_all add: dl_spent_handle dl_spent_run dl_handled_spent dl_new_spent
      cd_spent_handle cd_spent_run cd_handled_spent cd_new_spent)

lemma ex_dl_new: "DeeplinkAuth_new ex_opts = Inr ex_dl0"
  by (simp add: DeeplinkAuth_new_def resolveBotSettings_def ex_opts_def ex_dl0_def ex_settings_def)

lemma ex_dl1_sess:
  "dl_sessions ex_dl1 ''a1b2'' =
     Some \<lparr>dl_token = ''a1b2'', dl_createdAt = 1000, dl_used = False, dl_userData = None\<rparr>"
  by (simp add: ex_dl1_def generateDeeplink_def)

lemma ex_half_randomCode: "cd_randomCode ex_half = ''550000''"
  by (simp add: cd_randomCode_def ex_half_floor digit_char_def)

lemma ex_cd_generated_sess:
  "cd_sessions ex_cd_generated ''550000'' =
     Some \<lparr>cd_code = ''550000'', cd_createdAt = 1000, cd_used = False, cd_userData = None\<rparr>"
  by (simp add: ex_cd_generated_def cd_generateCode_def Let_def ex_half_randomCode)

lemma ex_cd_redeemed_sess:
  "cd_sessions ex_cd_redeemed ''550000'' =
     Some \<lparr>cd_code = ''550000'', cd_createdAt = 1000, cd_used = True, cd_userData = Some (ex_user 1)\<rparr>"
  by (simp add: ex_cd_redeemed_def cd_handleAuth_def Let_def ex_cd_generated_sess)

lemma ex_cd_regenerated_sess:
  "cd_sessions ex_cd_regenerated ''550000'' =
     Some \<lparr>cd_code = ''550000'', cd_createdAt = 2000, cd_used = False, cd_userData = None\<rparr>"
  by (simp add: ex_cd_regenerated_def cd_generateCode_def Let_def ex_half_randomCode)

text \<open>
  Claim C1 at two inputs. In the code store, \<^verbatim>\<open>Math.random()\<close> returns 0.5 for two
  calls of \<open>generateCode\<close>: the code \<open>550000\<close> is generated and redeemed with true, the
  second generation puts a fresh session in the place of the used one, and the
  redemption with another identity returns true a second time. In the deeplink store,
  with a callback that throws, the first \<open>handleAuth\<close> on a generated token throws
  after it has marked the session used, and the next one returns false: no call for
  this token returns true.
\<close>

theorem handleAuth_true_again_after_regeneration:
  "CodeAuth_new ex_opts = Inr ex_cd0
   \<and> fst (cd_generateCode ex_half 1000 ex_cd0) = ''550000''
   \<and> fst (cd_handleAuth ex_quiet ''550000'' (ex_user 1) ex_cd_generated) = Inr True
   \<and> fst (cd_generateCode ex_half 2000 ex_cd_redeemed) = ''550000''
   \<and> fst (cd_handleAuth ex_quiet ''550000'' (ex_user 2) ex_cd_regenerated) = Inr True
   \<and> DeeplinkAuth_new ex_opts = Inr ex_dl0
   \<and> fst (dl_handleAuth ex_throwing ''a1b2'' (ex_user 1) ex_dl1) = Inl HandlerException
   \<and> dl_sessions (snd (dl_handleAuth ex_throwing ''a1b2'' (ex_user 1) ex_dl1)) ''a1b2'' =
       Some \<lparr>dl_token = ''a1b2'', dl_createdAt = 1000, dl_used = True, dl_userData = Some (ex_user 1)\<rparr>
   \<and> fst (dl_handleAuth ex_throwing ''a1b2'' (ex_user 1)
          (snd (dl_handleAuth ex_throwing ''a1b2'' (ex_user 1) ex_dl1))) = Inr False"
proof -
  have n: "CodeAuth_new ex_opts = Inr ex_cd0"
    by (simp add: CodeAuth_new_def resolveBotSettings_def ex_opts_def ex_cd0_def ex_settings_def)
  have g: "fst (cd_generateCode ex_half 1000 ex_cd0) = ''550000''"
    "fst (cd_generateCode ex_half 2000 ex_cd_redeemed) = ''550000''"
    by (simp_all add: cd_generateCode_def Let_def ex_half_randomCode)
  have r1: "fst (cd_handleAuth ex_quiet ''550000'' (ex_user 1) ex_cd_generated) = Inr True"
    by (simp add: cd_handleAuth_def Let_def ex_cd_generated_sess sendResult_basic_def run_calls_quiet)
  have r2: "fst (cd_handleAuth ex_quiet ''550000'' (ex_user 2) ex_cd_regenerated) = Inr True"
    by (simp add: cd_handleAuth_def Let_def ex_cd_regenerated_sess sendResult_basic_def run_calls_quiet)
  have s: "sendResult_basic ex_throwing (dl_options ex_dl1) (ex_user 1) = ([CallOnAuth (ex_user 1)], True)"
    by (simp add: sendResult_basic_def ex_dl1_def generateDeeplink_def ex_dl0_def ex_opts_def
        transport_includes_def ex_throwing_def)
  have t1: "fst (dl_handleAuth ex_throwing ''a1b2'' (ex_user 1) ex_dl1) = Inl HandlerException"
    by (simp add: dl_handleAuth_def Let_def ex_dl1_sess s)
  have t2: "dl_sessions (snd (dl_handleAuth ex_throwing ''a1b2'' (ex_user 1) ex_dl1)) ''a1b2'' =
       Some \<lparr>dl_token = ''a1b2'', dl_createdAt = 1000, dl_used = True, dl_userData = Some (ex_user 1)\<rparr>"
    by (simp add: dl_handleAuth_def Let_def ex_dl1_sess s)
  have t3: "fst (dl_handleAuth ex_throwing ''a1b2'' (ex_user 1)
          (snd (dl_handleAuth ex_throwing ''a1b2'' (ex_user 1) ex_dl1))) = Inr False"
    by (simp add: dl_spent_handle dl_handled_spent)
  from n g r1 r2 ex_dl_new t1 t2 t3 show ?thesis
    by simp
qed

section \<open>The challenge store\<close>

lemma tf_log_fields [simp]:
  "tf_attempts (tf_log l m a) = tf_attempts a"
  "tf_sessions (tf_log l m a) = tf_sessions a"
  "tf_maxAttempts (tf_log l m a) = tf_maxAttempts a"
  "tf_effects (tf_log l m a) = tf_effects a @ [Log l m]"
  by (simp_all add: tf_log_def)

lemma ex_tf_new: "TwoFAAuth_new ex_tf_opts = Inr ex_tf0"
  by (simp add: TwoFAAuth_new_def resolveBotSettings_def ex_tf_opts_def ex_tf0_def
      ex_settings_def or_default_def)

text \<open>
  Claim C2. \<open>verify2FA\<close> tests, in this order, that the challenge exists, that it has
  not expired, that it is not used, and that attempts remain. The first test that
  fails decides the warning that is logged; the call then returns false and leaves
  the attempt counters and the challenges as they were. When all four tests pass the
  attempt counter of the subject becomes one more than it was, and the call returns
  true exactly when the code equals the stored one. So a call that returns true has
  passed all four tests with the stored code.
\<close>

theorem verify2FA_guard_order:
  "(tf_sessions a (sessionKey uid) = None \<longrightarrow>
      fst (verify2FA uid code now a) = False
      \<and> tf_attempts (snd (verify2FA uid code now a)) = tf_attempts a
      \<and> tf_sessions (snd (verify2FA uid code now a)) = tf_sessions a
      \<and> tf_effects (snd (verify2FA uid code now a)) =
          tf_effects a @ [Log WARN (''2FA session not found for user '' @ sessionKey uid)])
   \<and> (tf_sessions a (sessionKey uid) = Some s \<and> now > tf_expiresAt s \<longrightarrow>
      fst (verify2FA uid code now a) = False
      \<and> tf_attempts (snd (verify2FA uid code now a)) = tf_attempts a
      \<and> tf_sessions (snd (verify2FA uid code now a)) = tf_sessions a
      \<and> tf_effects (snd (verify2FA uid code now a)) =
          tf_effects a @ [Log WARN (''2FA code expired for user '' @ sessionKey uid)])
   \<and> (tf_sessions a (sessionKey uid) = Some s \<and> \<not> now > tf_expiresAt s \<and> tf_used s \<longrightarrow>
      fst (verify2FA uid code now a) = False
      \<and> tf_attempts (snd (verify2FA uid code now a)) = tf_attempts a
      \<and> tf_sessions (snd (verify2FA uid code now a)) = tf_sessions a
      \<and> tf_effects (snd (verify2FA uid code now a)) =
          tf_effects a @ [Log WARN (''2FA code already used for user '' @ sessionKey uid)])
   \<and> (tf_sessions a (sessionKey uid) = Some s \<and> \<not> now > tf_expiresAt s \<and> \<not> tf_used s
        \<and> attempts_of a (sessionKey uid) \<ge> tf_maxAttempts a \<longrightarrow>
      fst (verify2FA uid code now a) = False
      \<and> tf_attempts (snd (verify2FA uid code now a)) = tf_attempts a
      \<and> tf_sessions (snd (verify2FA uid code now a)) = tf_sessions a
      \<and> tf_effects (snd (verify2FA uid code now a)) =
          tf_effects a @ [Log WARN (''Too many 2FA attempts for user '' @ sessionKey uid)])
   \<and> (tf_sessions a (sessionKey uid) = Some s \<and> \<not> now > tf_expiresAt s \<and> \<not> tf_used s
        \<and> \<not> attempts_of a (sessionKey uid) \<ge> tf_maxAttempts a \<longrightarrow>
      fst (verify2FA uid code now a) = (tf_code s = code)
      \<and> tf_attempts (snd (verify2FA uid code now a)) =
          (tf_attempts a)(sessionKey uid \<mapsto> attempts_of a (sessionKey uid) + 1))
   \<and> (fst (verify2FA uid code now a) \<longrightarrow>
      (\<exists>s'. tf_sessions a (sessionKey uid) = Some s' \<and> \<not> now > tf_expiresAt s' \<and> \<not> tf_used s'
        \<and> attempts_of a (sessionKey uid) < tf_maxAttempts a \<and> tf_code s' = code))"
proof (intro conjI impI)
  assume "fst (verify2FA uid code now a)"
  then show "\<exists>s'. tf_sessions a (sessionKey uid) = Some s' \<and> \<not> now > tf_expiresAt s' \<and> \<not> tf_used s'
        \<and> attempts_of a (sessionKey uid) < tf_maxAttempts a \<and> tf_code s' = code"
    by (auto simp: verify2FA_def Let_def split: option.splits if_splits)
qed (simp_all add: verify2FA_def Let_def)

theorem verify2FA_guard_order_witness:
  "(tf_sessions ex_tf_live (sessionKey (UidStr ''7'')) = None
      \<and> fst (verify2FA (UidStr ''7'') ''123456'' 2000 ex_tf_live) = False
      \<and> tf_attempts (snd (verify2FA (UidStr ''7'') ''123456'' 2000 ex_tf_live)) = tf_attempts ex_tf_live)
   \<and> (tf_sessions ex_tf_exhausted (sessionKey (UidStr ''42'')) = Some ex_challenge
      \<and> 400000 > tf_expiresAt ex_challenge
      \<and> fst (verify2FA (UidStr ''42'') ''123456'' 400000 ex_tf_exhausted) = False
      \<and> tf_effects (snd (verify2FA (UidStr ''42'') ''123456'' 400000 ex_tf_exhausted)) =
          [Log WARN ''2FA code expired for user 42''])
   \<and> (tf_sessions ex_tf_used (sessionKey (UidStr ''42'')) =
          Some (ex_challenge\<lparr>tf_used := True, tf_verified := True\<rparr>)
      \<and> \<not> 2000 > tf_expiresAt (ex_challenge\<lparr>tf_used := True, tf_verified := True\<rparr>)
      \<and> tf_used (ex_challenge\<lparr>tf_used := True, tf_verified := True\<rparr>)
      \<and> fst (verify2FA (UidStr ''42'') ''123456'' 2000 ex_tf_used) = False
      \<and> tf_attempts (snd (verify2FA (UidStr ''42'') ''123456'' 2000 ex_tf_used)) = tf_attempts ex_tf_used)
   \<and> (\<not> 2000 > tf_expiresAt ex_challenge \<and> \<not> tf_used ex_challenge
      \<and> attempts_of ex_tf_exhausted (sessionKey (UidStr ''42'')) \<ge> tf_maxAttempts ex_tf_exhausted
      \<and> fst (verify2FA (UidStr ''42'') ''123456'' 2000 ex_tf_exhausted) = False
      \<and> tf_attempts (snd (verify2FA (UidStr ''42'') ''123456'' 2000 ex_tf_exhausted)) =
          tf_attempts ex_tf_exhausted)
   \<and> (tf_sessions ex_tf_live (sessionKey (UidStr ''42'')) = Some ex_challenge
      \<and> \<not> attempts_of ex_tf_live (sessionKey (UidStr ''42'')) \<ge> tf_maxAttempts ex_tf_live
      \<and> fst (verify2FA (UidStr ''42'') ''123456'' 2000 ex_tf_live)
      \<and> \<not> fst (verify2FA (UidStr ''42'') ''654321'' 2000 ex_tf_live)
      \<and> tf_attempts (snd (verify2FA (UidStr ''42'') ''654321'' 2000 ex_tf_live)) ''42'' = Some 1)"
proof -
  have live: "tf_sessions ex_tf_live ''42'' = Some ex_challenge" "tf_sessions ex_tf_live ''7'' = None"
    "attempts_of ex_tf_live ''42'' = 0" "tf_maxAttempts ex_tf_live = 3" "tf_attempts ex_tf_live ''42'' = Some 0"
    by (simp_all add: ex_tf_live_def ex_tf0_def attempts_of_def)
  have exh: "tf_sessions ex_tf_exhausted ''42'' = Some ex_challenge"
    "attempts_of ex_tf_exhausted ''42'' = 3" "tf_maxAttempts ex_tf_exhausted = 3"
    "tf_effects ex_tf_exhausted = []"
    by (simp_all add: ex_tf_exhausted_def ex_tf0_def attempts_of_def)
  have usd: "tf_sessions ex_tf_used ''42'' = Some (ex_challenge\<lparr>tf_used := True, tf_verified := True\<rparr>)"
    by (simp add: ex_tf_used_def)
  have ch: "tf_expiresAt ex_challenge = 301000" "\<not> tf_used ex_challenge" "tf_code ex_challenge = ''123456''"
    by (simp_all add: ex_challenge_def)
  note T1 = verify2FA_guard_order [where a = ex_tf_live and uid = "UidStr ''7''" and code = "''123456''"
      and now = 2000]
  note T2 = verify2FA_guard_order [where a = ex_tf_exhausted and uid = "UidStr ''42''"
      and code = "''123456''" and now = 400000 and s = ex_challenge]
  note T3 = verify2FA_guard_order [where a = ex_tf_used and uid = "UidStr ''42''"
      and code = "''123456''" and now = 2000 and s = "ex_challenge\<lparr>tf_used := True, tf_verified := True\<rparr>"]
  note T4 = verify2FA_guard_order [where a = ex_tf_exhausted and uid = "UidStr ''42''"
      and code = "''123456''" and now = 2000 and s = ex_challenge]
  note T5 = verify2FA_guard_order [where a = ex_tf_live and uid = "UidStr ''42''"
      and code = "''123456''" and now = 2000 and s = ex_challenge]
  note T6 = verify2FA_guard_order [where a = ex_tf_live and uid = "UidStr ''42''"
      and code = "''654321''" and now = 2000 and s = ex_challenge]
  from T1 live have c1: "fst (verify2FA (UidStr ''7'') ''123456'' 2000 ex_tf_live) = False
      \<and> tf_attempts (snd (verify2FA (UidStr ''7'') ''123456'' 2000 ex_tf_live)) = tf_attempts ex_tf_live"
    by simp
  from T2 exh ch have c2: "fst (verify2FA (UidStr ''42'') ''123456'' 400000 ex_tf_exhausted) = False
      \<and> tf_effects (snd (verify2FA (UidStr ''42'') ''123456'' 400000 ex_tf_exhausted)) =
          [Log WARN ''2FA code expired for user 42'']"
    by simp
  from T3 usd ch have c3: "fst (verify2FA (UidStr ''42'') ''123456'' 2000 ex_tf_used) = False
      \<and> tf_attempts (snd (verify2FA (UidStr ''42'') ''123456'' 2000 ex_tf_used)) = tf_attempts ex_tf_used"
    by simp
  from T4 exh ch have c4: "fst (verify2FA (UidStr ''42'') ''123456'' 2000 ex_tf_exhausted) = False
      \<and> tf_attempts (snd (verify2FA (UidStr ''42'') ''123456'' 2000 ex_tf_exhausted)) =
          tf_attempts ex_tf_exhausted"
    by simp
  from T5 live ch have c5: "fst (verify2FA (UidStr ''42'') ''123456'' 2000 ex_tf_live)"
    by simp
  from T6 live ch have c6: "\<not> fst (verify2FA (UidStr ''42'') ''654321'' 2000 ex_tf_live)
      \<and> tf_attempts (snd (verify2FA (UidStr ''42'') ''654321'' 2000 ex_tf_live)) ''42'' = Some 1"
    by simp
  from c1 c2 c3 c4 c5 c6 live exh usd ch show ?thesis
    by simp
qed

lemma tf_locked_verify: "tf_locked (sessionKey uid) a \<Longrightarrow> \<not> fst (verify2FA uid code now a)"
  by (auto simp: tf_locked_def verify2FA_def Let_def split: option.splits if_splits)

lemma tf_locked_step: "tf_locked key a \<Longrightarrow> \<not> tf_starts key x \<Longrightarrow> tf_locked key (tf_step a x)"
proof (cases x)
  case (Start2FA uid ud sm m bytes t1 t2)
  assume "tf_locked key a" "\<not> tf_starts key x"
  with Start2FA show ?thesis
    by (auto simp: tf_locked_def start2FA_def Let_def attempts_of_def)
next
  case (Verify2FA uid code now)
  assume "tf_locked key a"
  with Verify2FA show ?thesis
    by (auto simp: tf_locked_def verify2FA_def Let_def attempts_of_def split: option.splits)
next
  case (IsVerified uid)
  assume "tf_locked key a"
  with IsVerified show ?thesis by simp
next
  case (Reset2FA uid)
  assume "tf_locked key a"
  with Reset2FA show ?thesis
    by (auto simp: tf_locked_def reset2FA_def Let_def attempts_of_def)
qed

lemma tf_locked_run:
  "tf_locked key a \<Longrightarrow> \<not> list_ex (tf_starts key) ops \<Longrightarrow> tf_locked key (tf_run a ops)"
  unfolding tf_run_def
  by (induction ops arbitrary: a) (auto simp: tf_locked_step)

text \<open>
  Claim C3. Once the attempt counter of a subject has reached \<open>maxAttempts\<close>, every
  later \<open>verify2FA\<close> for that subject returns false, whatever code it carries and
  whatever calls come in between, as long as none of them is a \<open>start2FA\<close> for the
  subject. \<open>start2FA\<close> installs a fresh unused challenge and sets the counter to 0;
  with a positive \<open>maxAttempts\<close>, its code is then accepted until the challenge expires.
\<close>

theorem exhausted_attempts_lock_until_start:
  "(attempts_of a (sessionKey uid) \<ge> tf_maxAttempts a
      \<and> \<not> list_ex (tf_starts (sessionKey uid)) ops \<longrightarrow>
      \<not> fst (verify2FA uid code now (tf_run a ops)))
   \<and> tf_attempts (snd (start2FA uid ud sm m bytes t1 t2 a)) (sessionKey uid) = Some 0
   \<and> tf_sessions (snd (start2FA uid ud sm m bytes t1 t2 a)) (sessionKey uid) =
       Some \<lparr>tf_userId = uid, tf_code = fst (start2FA uid ud sm m bytes t1 t2 a), tf_createdAt = t1,
             tf_expiresAt = t2 + tf_codeLifetime a, tf_used = False, tf_verified = False,
             tf_userData = ud\<rparr>
   \<and> (0 < tf_maxAttempts a \<and> now \<le> t2 + tf_codeLifetime a \<longrightarrow>
      fst (verify2FA uid (fst (start2FA uid ud sm m bytes t1 t2 a)) now
             (snd (start2FA uid ud sm m bytes t1 t2 a))))"
proof (intro conjI impI)
  assume h: "attempts_of a (sessionKey uid) \<ge> tf_maxAttempts a
      \<and> \<not> list_ex (tf_starts (sessionKey uid)) ops"
  then have "tf_locked (sessionKey uid) a"
    by (simp add: tf_locked_def)
  with h have "tf_locked (sessionKey uid) (tf_run a ops)"
    by (simp add: tf_locked_run)
  then show "\<not> fst (verify2FA uid code now (tf_run a ops))"
    by (rule tf_locked_verify)
next
  assume "0 < tf_maxAttempts a \<and> now \<le> t2 + tf_codeLifetime a"
  then show "fst (verify2FA uid (fst (start2FA uid ud sm m bytes t1 t2 a)) now
             (snd (start2FA uid ud sm m bytes t1 t2 a)))"
    by (simp add: start2FA_def verify2FA_def Let_def attempts_of_def)
qed (simp_all add: start2FA_def Let_def)

theorem exhausted_attempts_lock_until_start_witness:
  "attempts_of ex_tf_exhausted (sessionKey (UidStr ''42'')) \<ge> tf_maxAttempts ex_tf_exhausted
   \<and> \<not> list_ex (tf_starts (sessionKey (UidStr ''42''))) ex_tf_ops
   \<and> tf_code ex_challenge = ''123456''
   \<and> \<not> fst (verify2FA (UidStr ''42'') ''123456'' 3000 (tf_run ex_tf_exhausted ex_tf_ops))
   \<and> \<not> fst (verify2FA (UidStr ''42'') ''123456'' 3000 (tf_run ex_tf_exhausted []))
   \<and> 0 < tf_maxAttempts ex_tf_exhausted
   \<and> 3000 \<le> 2500 + tf_codeLifetime ex_tf_exhausted
   \<and> fst (verify2FA (UidStr ''42'')
         (fst (start2FA (UidStr ''42'') None False ex_half [] 2500 2500 ex_tf_exhausted)) 3000
         (snd (start2FA (UidStr ''42'') None False ex_half [] 2500 2500 ex_tf_exhausted)))"
proof -
  have h4: "0 < tf_maxAttempts ex_tf_exhausted \<and> 3000 \<le> 2500 + tf_codeLifetime ex_tf_exhausted"
    by (simp add: ex_tf_exhausted_def ex_tf0_def)
  from exhausted_attempts_lock_until_start [where a = ex_tf_exhausted and uid = "UidStr ''42''"
      and now = 3000 and ?t2.0 = 2500 and ?t1.0 = 2500 and ud = None and sm = False and m = ex_half
      and bytes = "[]"] h4
  have c3: "fst (verify2FA (UidStr ''42'')
         (fst (start2FA (UidStr ''42'') None False ex_half [] 2500 2500 ex_tf_exhausted)) 3000
         (snd (start2FA (UidStr ''42'') None False ex_half [] 2500 2500 ex_tf_exhausted)))"
    by blast
  have h1: "attempts_of ex_tf_exhausted (sessionKey (UidStr ''42'')) \<ge> tf_maxAttempts ex_tf_exhausted"
    by (simp add: ex_tf_exhausted_def ex_tf0_def attempts_of_def)
  have h2: "\<not> list_ex (tf_starts (sessionKey (UidStr ''42''))) ex_tf_ops"
    by (simp add: ex_tf_ops_def)
  have h3: "\<not> list_ex (tf_starts (sessionKey (UidStr ''42''))) []"
    by simp
  from exhausted_attempts_lock_until_start [where a = ex_tf_exhausted and uid = "UidStr ''42''"
      and ops = ex_tf_ops and code = "''123456''" and now = 3000] h1 h2
  have c1: "\<not> fst (verify2FA (UidStr ''42'') ''123456'' 3000 (tf_run ex_tf_exhausted ex_tf_ops))"
    by blast
  from exhausted_attempts_lock_until_start [where a = ex_tf_exhausted and uid = "UidStr ''42''"
      and ops = "[]" and code = "''123456''" and now = 3000] h1 h3
  have c2: "\<not> fst (verify2FA (UidStr ''42'') ''123456'' 3000 (tf_run ex_tf_exhausted []))"
    by blast
  from h1 h2 h4 c1 c2 c3 show ?thesis
    by (simp add: ex_challenge_def)
qed

lemma tf_inv_step: "tf_inv a \<Longrightarrow> tf_inv (tf_step a x)"
  by (cases x)
    (auto simp: tf_inv_def start2FA_def verify2FA_def reset2FA_def Let_def
      split: option.splits if_splits)

lemma tf_inv_run: "tf_inv a \<Longrightarrow> tf_inv (tf_run a ops)"
  unfolding tf_run_def by (induction ops arbitrary: a) (auto simp: tf_inv_step)

lemma tf_inv_new: "TwoFAAuth_new opts = Inr a \<Longrightarrow> tf_inv a"
  by (auto simp: TwoFAAuth_new_def tf_inv_def split: sum.splits)

text \<open>
  Claim C9. In a store built by the constructor and driven by any run of
  \<open>start2FA\<close>, \<open>verify2FA\<close>, \<open>isVerified\<close> and \<open>reset2FA\<close>, every stored challenge that is
  verified is also used.
\<close>

theorem verified_implies_used:
  "TwoFAAuth_new opts = Inr a \<Longrightarrow> tf_sessions (tf_run a ops) key = Some s \<Longrightarrow>
   tf_verified s \<Longrightarrow> tf_used s"
  using tf_inv_new tf_inv_run unfolding tf_inv_def by blast

theorem verified_implies_used_witness:
  "TwoFAAuth_new ex_tf_opts = Inr ex_tf0
   \<and> tf_sessions (tf_run ex_tf0 ex_tf_good_ops) ''42'' =
       Some \<lparr>tf_userId = UidStr ''42'', tf_code = tf_generateCode 6 ex_half [], tf_createdAt = 1000,
             tf_expiresAt = 301000, tf_used = True, tf_verified = True, tf_userData = None\<rparr>
   \<and> tf_verified \<lparr>tf_userId = UidStr ''42'', tf_code = tf_generateCode 6 ex_half [], tf_createdAt = 1000,
             tf_expiresAt = 301000, tf_used = True, tf_verified = True, tf_userData = None\<rparr>
   \<and> tf_used \<lparr>tf_userId = UidStr ''42'', tf_code = tf_generateCode 6 ex_half [], tf_createdAt = 1000,
             tf_expiresAt = 301000, tf_used = True, tf_verified = True, tf_userData = None\<rparr>"
proof -
  let ?s = "\<lparr>tf_userId = UidStr ''42'', tf_code = tf_generateCode 6 ex_half [], tf_createdAt = 1000,
             tf_expiresAt = 301000, tf_used = True, tf_verified = True, tf_userData = None\<rparr>"
  have run: "tf_sessions (tf_run ex_tf0 ex_tf_good_ops) ''42'' = Some ?s"
    by (simp add: tf_run_def ex_tf_good_ops_def start2FA_def verify2FA_def Let_def ex_tf0_def
        attempts_of_def)
  have v: "tf_verified ?s"
    by simp
  from verified_implies_used [OF ex_tf_new run v] run v ex_tf_new show ?thesis
    by simp
qed

section \<open>The widget verifier and the constructors\<close>

lemmas eval_defs = show_int_def digit_char_def parseInt_def parseInt_str_def is_space_def
  parse_unsigned_def parse_digits_def is_digit_of_def digit_val_def digits_val_def

lemma ex_check_arr:
  "dataCheckArr ex_payload = [''auth_date=1700000000'', ''first_name=Ann'', ''id=777'', ''username=ann'']"
  by (simp add: dataCheckArr_def ex_payload_def ex_fields_def objectKeys_def checkLine_def
      AList.delete_eq show_int_def digit_char_def getProp.simps)

lemma ex_check_arr_signed:
  "dataCheckArr ex_payload_signed = [''auth_date=1700000000'', ''first_name=Ann'', ''id=777'', ''username=ann'']"
  by (simp add: dataCheckArr_def ex_payload_signed_def ex_fields_def objectKeys_def checkLine_def
      AList.delete_eq show_int_def digit_char_def getProp.simps)

lemma ex_check_arr_altered:
  "dataCheckArr ex_payload_altered = [''auth_date=1700000000'', ''first_name=Ann'', ''id=777'', ''username=ann'']"
  by (simp add: dataCheckArr_def ex_payload_altered_def objectKeys_def checkLine_def
      AList.delete_eq show_int_def digit_char_def getProp.simps)

text \<open>
  Claim C4, as stated, fails: a field other than \<open>hash\<close> whose value is falsy
  contributes no line. The payload below carries \<^verbatim>\<open>last_name: ''\<close>; its check string
  has no \<open>last_name\<close> line, and the payload with \<^verbatim>\<open>last_name: false\<close> instead has the
  same check string.
\<close>

theorem falsy_field_left_out_of_check_string:
  "(''last_name'', JStr '''') \<in> set ex_payload
   \<and> (''last_name'', JBool False) \<in> set ex_payload_altered
   \<and> dataCheckString ex_payload =
       ''auth_date=1700000000'' @ [CHR 0x0A] @ ''first_name=Ann'' @ [CHR 0x0A] @ ''id=777''
         @ [CHR 0x0A] @ ''username=ann''
   \<and> dataCheckString ex_payload_altered = dataCheckString ex_payload"
  by (simp add: dataCheckString_def ex_check_arr ex_check_arr_altered)
    (simp add: ex_payload_def ex_fields_def ex_payload_altered_def)

lemma getProp_delete:
  "k \<noteq> k' \<Longrightarrow> getProp (JObj (AList.delete k' kvs)) k = getProp (JObj kvs) k"
  by (simp add: AList.delete_conv getProp.simps)

lemma checkLine_delete: "k \<noteq> k' \<Longrightarrow> checkLine (AList.delete k' kvs) k = checkLine kvs k"
  by (simp add: checkLine_def AList.delete_conv getProp.simps)

lemma signedKeys_set:
  "set (signedKeys kvs) = {k \<in> fst ` set kvs. k \<noteq> ''hash'' \<and> truthy (getProp (JObj kvs) k)}"
  by (auto simp: signedKeys_def objectKeys_def AList.delete_keys AList.delete_conv getProp.simps)

lemma signedKeys_sorted: "sorted (signedKeys kvs) \<and> distinct (signedKeys kvs)"
  by (simp add: signedKeys_def objectKeys_def sorted_filter[where f = id, simplified])

lemma dataCheckArr_signedKeys: "dataCheckArr kvs = map (checkLine kvs) (signedKeys kvs)"
proof -
  have "\<forall>k \<in> set (signedKeys kvs). checkLine (AList.delete ''hash'' kvs) k = checkLine kvs k"
    by (simp add: signedKeys_set checkLine_delete)
  then show ?thesis
    by (simp add: dataCheckArr_def signedKeys_def Let_def)
qed

text \<open>
  Claim C4, amended. The check string consists of the lines \<open>key=value\<close>, joined by
  line feeds, of the keys of the payload other than \<open>hash\<close> whose value is truthy, in
  ascending order of the keys, each once. With a bot token present, the signature test
  returns whether the HMAC of the check string under the hash of the token, as a
  string, is identical to the \<open>hash\<close> property; with validation enabled \<open>handleAuth\<close>
  returns false whenever it is not.
\<close>

theorem check_string_and_digest:
  "dataCheckArr kvs = map (checkLine kvs) (signedKeys kvs)
   \<and> sorted (signedKeys kvs) \<and> distinct (signedKeys kvs)
   \<and> set (signedKeys kvs) = {k \<in> fst ` set kvs. k \<noteq> ''hash'' \<and> truthy (getProp (JObj kvs) k)}
   \<and> dataCheckString kvs = join [CHR 0x0A] (dataCheckArr kvs)
   \<and> (botToken opts = Some tok \<longrightarrow>
        wa_validateSignature cr opts kvs =
          Inr (JStr (hmac_sha256_hex cr (sha256 cr tok) (dataCheckString kvs)) = getProp (JObj kvs) ''hash''))
   \<and> (validateSignature (wa_options w) = Some True \<and> botToken (wa_options w) = Some tok
        \<and> JStr (hmac_sha256_hex cr (sha256 cr tok) (dataCheckString kvs)) \<noteq> getProp (JObj kvs) ''hash''
        \<longrightarrow> fst (wa_handleAuth cr (JObj kvs) nowMs w) = Inr False)"
proof (intro conjI impI)
  show "dataCheckArr kvs = map (checkLine kvs) (signedKeys kvs)"
    by (rule dataCheckArr_signedKeys)
  show "sorted (signedKeys kvs)" "distinct (signedKeys kvs)"
    by (simp_all add: signedKeys_sorted)
  show "set (signedKeys kvs) = {k \<in> fst ` set kvs. k \<noteq> ''hash'' \<and> truthy (getProp (JObj kvs) k)}"
    by (rule signedKeys_set)
  show "dataCheckString kvs = join [CHR 0x0A] (dataCheckArr kvs)"
    by (simp add: dataCheckString_def)
next
  assume "botToken opts = Some tok"
  then show "wa_validateSignature cr opts kvs =
      Inr (JStr (hmac_sha256_hex cr (sha256 cr tok) (dataCheckString kvs)) = getProp (JObj kvs) ''hash'')"
    by (simp add: wa_validateSignature_def Let_def)
next
  assume h: "validateSignature (wa_options w) = Some True \<and> botToken (wa_options w) = Some tok
        \<and> JStr (hmac_sha256_hex cr (sha256 cr tok) (dataCheckString kvs)) \<noteq> getProp (JObj kvs) ''hash''"
  then have "wa_validateSignature cr (wa_options w) kvs = Inr False"
    by (simp add: wa_validateSignature_def Let_def)
  with h show "fst (wa_handleAuth cr (JObj kvs) nowMs w) = Inr False"
    by (simp add: wa_handleAuth_def Let_def split: option.splits)
qed

lemma ex_signed_req: "find (\<lambda>field. \<not> truthy (getProp (JObj ex_payload_signed) field)) requiredFields = None"
  by (simp add: requiredFields_def ex_payload_signed_def ex_fields_def getProp.simps)

lemma ex_req: "find (\<lambda>field. \<not> truthy (getProp (JObj ex_payload) field)) requiredFields = None"
  by (simp add: requiredFields_def ex_payload_def ex_fields_def getProp.simps)

lemma ex_signed_date: "parseInt (getProp (JObj ex_payload_signed) ''auth_date'') = Some 1700000000"
  by (simp add: ex_payload_signed_def ex_fields_def eval_defs getProp.simps)

lemma ex_date: "parseInt (getProp (JObj ex_payload) ''auth_date'') = Some 1700000000"
  by (simp add: ex_payload_def ex_fields_def eval_defs getProp.simps)

lemma ex_signed_hash:
  "getProp (JObj ex_payload_signed) ''hash'' =
     JStr (hmac_sha256_hex toy_crypto (sha256 toy_crypto ''123:abc'') (dataCheckString ex_payload_signed))"
  by (simp add: dataCheckString_def ex_check_arr_signed toy_crypto_def)
     (simp add: ex_payload_signed_def ex_fields_def getProp.simps)

lemma ex_hash:
  "getProp (JObj ex_payload) ''hash'' \<noteq>
     JStr (hmac_sha256_hex toy_crypto (sha256 toy_crypto ''123:abc'') (dataCheckString ex_payload))"
  by (simp add: dataCheckString_def ex_check_arr toy_crypto_def)
     (simp add: ex_payload_def ex_fields_def getProp.simps)

theorem check_string_and_digest_witness:
  "botToken (ex_w_opts (Some True) (Some ''123:abc'')) = Some ''123:abc''
   \<and> wa_validateSignature toy_crypto (ex_w_opts (Some True) (Some ''123:abc'')) ex_payload_signed = Inr True
   \<and> wa_validateSignature toy_crypto (ex_w_opts (Some True) (Some ''123:abc'')) ex_payload = Inr False
   \<and> validateSignature (wa_options (ex_widget True (Some ''123:abc''))) = Some True
   \<and> fst (wa_handleAuth toy_crypto (JObj ex_payload) 1700000005000 (ex_widget True (Some ''123:abc''))) = Inr False
   \<and> signedKeys ex_payload = [''auth_date'', ''first_name'', ''id'', ''username'']"
proof -
  have o: "botToken (ex_w_opts (Some True) (Some ''123:abc'')) = Some ''123:abc''"
    "validateSignature (wa_options (ex_widget True (Some ''123:abc''))) = Some True"
    "botToken (wa_options (ex_widget True (Some ''123:abc''))) = Some ''123:abc''"
    by (simp_all add: ex_w_opts_def ex_widget_def)
  have k: "signedKeys ex_payload = [''auth_date'', ''first_name'', ''id'', ''username'']"
    by (simp add: signedKeys_def ex_payload_def ex_fields_def objectKeys_def AList.delete_eq getProp.simps)
  note T1 = check_string_and_digest [where opts = "ex_w_opts (Some True) (Some ''123:abc'')"
      and tok = "''123:abc''" and cr = toy_crypto and kvs = ex_payload_signed]
  note T2 = check_string_and_digest [where opts = "ex_w_opts (Some True) (Some ''123:abc'')"
      and tok = "''123:abc''" and cr = toy_crypto and kvs = ex_payload
      and w = "ex_widget True (Some ''123:abc'')" and nowMs = 1700000005000]
  from T1 o ex_signed_hash
  have c1: "wa_validateSignature toy_crypto (ex_w_opts (Some True) (Some ''123:abc'')) ex_payload_signed = Inr True"
    by simp
  from T2 o ex_hash
  have c2: "wa_validateSignature toy_crypto (ex_w_opts (Some True) (Some ''123:abc'')) ex_payload = Inr False"
    by simp
  from T2 o ex_hash
  have c3: "fst (wa_handleAuth toy_crypto (JObj ex_payload) 1700000005000 (ex_widget True (Some ''123:abc''))) = Inr False"
    by simp
  from o k c1 c2 c3 show ?thesis by simp
qed

text \<open>
  Claim C6. A payload whose \<open>auth_date\<close> parses to a time more than 86400 seconds
  before the current time in seconds, \<^verbatim>\<open>Math.floor(Date.now() / 1000)\<close>, is answered
  with false, whatever the other fields, the options and the digest are.
\<close>

theorem stale_payload_rejected:
  "parseInt (getProp data ''auth_date'') = Some d \<Longrightarrow> nowMs div 1000 - d > 86400 \<Longrightarrow>
   fst (wa_handleAuth cr data nowMs w) = Inr False"
  by (cases data) (auto simp: wa_handleAuth_def Let_def widget_expired_def split: option.splits)

theorem stale_payload_rejected_witness:
  "parseInt (getProp (JObj ex_payload_signed) ''auth_date'') = Some 1700000000
   \<and> 1700086401000 div 1000 - 1700000000 > (86400 :: int)
   \<and> wa_validateSignature toy_crypto (wa_options (ex_widget True (Some ''123:abc''))) ex_payload_signed = Inr True
   \<and> fst (wa_handleAuth toy_crypto (JObj ex_payload_signed) 1700086401000 (ex_widget True (Some ''123:abc'')))
       = Inr False
   \<and> fst (wa_handleAuth toy_crypto (JObj ex_payload_signed) 1700086400000 (ex_widget True (Some ''123:abc'')))
       = Inr True"
proof -
  have h: "1700086401000 div 1000 - 1700000000 > (86400 :: int)"
    by simp
  have o: "validateSignature (wa_options (ex_widget True (Some ''123:abc''))) = Some True"
    by (simp add: ex_widget_def ex_w_opts_def)
  have v: "wa_validateSignature toy_crypto (wa_options (ex_widget True (Some ''123:abc''))) ex_payload_signed = Inr True"
    by (simp add: wa_validateSignature_def Let_def ex_signed_hash ex_widget_def ex_w_opts_def)
  have ok: "fst (wa_handleAuth toy_crypto (JObj ex_payload_signed) 1700086400000 (ex_widget True (Some ''123:abc'')))
       = Inr True"
    by (simp add: wa_handleAuth_def Let_def ex_signed_req ex_signed_date widget_expired_def v o)
  from stale_payload_rejected [OF ex_signed_date h, of toy_crypto "ex_widget True (Some ''123:abc'')"]
    ex_signed_date h v ok
  show ?thesis by simp
qed

lemma find_required_None:
  "(\<forall>f \<in> set requiredFields. truthy (getProp data f)) \<Longrightarrow>
   find (\<lambda>field. \<not> truthy (getProp data field)) requiredFields = None"
  by (simp add: find_None_iff)

text \<open>
  Claim C10. An object constructed with \<^verbatim>\<open>validateSignature: false\<close> answers true to
  every payload whose four required fields are truthy and whose \<open>auth_date\<close> is not
  more than 86400 seconds old, whatever its hash is. Constructed with
  \<^verbatim>\<open>validateSignature\<close> true or absent, and a bot token, it answers such a payload
  with the outcome of the comparison of digest and hash.
\<close>

theorem signature_checked_only_when_enabled:
  "(WidgetAuth_new opts = Inr w \<and> validateSignature opts = Some False
      \<and> (\<forall>f \<in> set requiredFields. truthy (getProp (JObj kvs) f))
      \<and> parseInt (getProp (JObj kvs) ''auth_date'') = Some d \<and> nowMs div 1000 - d \<le> 86400
    \<longrightarrow> fst (wa_handleAuth cr (JObj kvs) nowMs w) = Inr True)
   \<and> (WidgetAuth_new opts = Inr w \<and> validateSignature opts \<noteq> Some False \<and> botToken opts = Some tok
      \<and> (\<forall>f \<in> set requiredFields. truthy (getProp (JObj kvs) f))
      \<and> parseInt (getProp (JObj kvs) ''auth_date'') = Some d \<and> nowMs div 1000 - d \<le> 86400
    \<longrightarrow> fst (wa_handleAuth cr (JObj kvs) nowMs w) =
          Inr (JStr (hmac_sha256_hex cr (sha256 cr tok) (dataCheckString kvs)) = getProp (JObj kvs) ''hash''))"
proof (intro conjI impI)
  assume h: "WidgetAuth_new opts = Inr w \<and> validateSignature opts = Some False
      \<and> (\<forall>f \<in> set requiredFields. truthy (getProp (JObj kvs) f))
      \<and> parseInt (getProp (JObj kvs) ''auth_date'') = Some d \<and> nowMs div 1000 - d \<le> 86400"
  then have v: "validateSignature (wa_options w) = Some False"
    by (auto simp: WidgetAuth_new_def)
  from h have r: "find (\<lambda>field. \<not> truthy (getProp (JObj kvs) field)) requiredFields = None"
    by (simp add: find_required_None)
  from h v r show "fst (wa_handleAuth cr (JObj kvs) nowMs w) = Inr True"
    by (simp add: wa_handleAuth_def Let_def widget_expired_def)
next
  assume h: "WidgetAuth_new opts = Inr w \<and> validateSignature opts \<noteq> Some False \<and> botToken opts = Some tok
      \<and> (\<forall>f \<in> set requiredFields. truthy (getProp (JObj kvs) f))
      \<and> parseInt (getProp (JObj kvs) ''auth_date'') = Some d \<and> nowMs div 1000 - d \<le> 86400"
  then have v: "validateSignature (wa_options w) = Some True" "botToken (wa_options w) = Some tok"
    by (auto simp: WidgetAuth_new_def split: option.splits)
  from h have r: "find (\<lambda>field. \<not> truthy (getProp (JObj kvs) field)) requiredFields = None"
    by (simp add: find_required_None)
  from h v r show "fst (wa_handleAuth cr (JObj kvs) nowMs w) =
          Inr (JStr (hmac_sha256_hex cr (sha256 cr tok) (dataCheckString kvs)) = getProp (JObj kvs) ''hash'')"
    by (simp add: wa_handleAuth_def Let_def widget_expired_def wa_validateSignature_def)
qed

lemma ex_req_all: "\<forall>f \<in> set requiredFields. truthy (getProp (JObj ex_payload) f)"
  by (simp add: requiredFields_def ex_payload_def ex_fields_def getProp.simps)

theorem signature_checked_only_when_enabled_witness:
  "WidgetAuth_new (ex_w_opts (Some False) (Some ''123:abc'')) = Inr (ex_widget False (Some ''123:abc''))
   \<and> validateSignature (ex_w_opts (Some False) (Some ''123:abc'')) = Some False
   \<and> list_all (\<lambda>f. truthy (getProp (JObj ex_payload) f)) requiredFields
   \<and> parseInt (getProp (JObj ex_payload) ''auth_date'') = Some 1700000000
   \<and> 1700000005000 div 1000 - 1700000000 \<le> (86400 :: int)
   \<and> getProp (JObj ex_payload) ''hash'' \<noteq>
       JStr (hmac_sha256_hex toy_crypto (sha256 toy_crypto ''123:abc'') (dataCheckString ex_payload))
   \<and> fst (wa_handleAuth toy_crypto (JObj ex_payload) 1700000005000 (ex_widget False (Some ''123:abc''))) = Inr True
   \<and> WidgetAuth_new (ex_w_opts None (Some ''123:abc'')) = Inr (ex_widget True (Some ''123:abc''))
   \<and> validateSignature (ex_w_opts None (Some ''123:abc'')) \<noteq> Some False
   \<and> botToken (ex_w_opts None (Some ''123:abc'')) = Some ''123:abc''
   \<and> fst (wa_handleAuth toy_crypto (JObj ex_payload) 1700000005000 (ex_widget True (Some ''123:abc''))) = Inr False"
proof -
  have n1: "WidgetAuth_new (ex_w_opts (Some False) (Some ''123:abc'')) = Inr (ex_widget False (Some ''123:abc''))"
    "WidgetAuth_new (ex_w_opts None (Some ''123:abc'')) = Inr (ex_widget True (Some ''123:abc''))"
    by (simp_all add: WidgetAuth_new_def ex_w_opts_def ex_widget_def)
  have o: "validateSignature (ex_w_opts (Some False) (Some ''123:abc'')) = Some False"
    "validateSignature (ex_w_opts None (Some ''123:abc'')) \<noteq> Some False"
    "botToken (ex_w_opts None (Some ''123:abc'')) = Some ''123:abc''"
    by (simp_all add: ex_w_opts_def)
  have t: "1700000005000 div 1000 - 1700000000 \<le> (86400 :: int)"
    by simp
  note T1 = signature_checked_only_when_enabled [where opts = "ex_w_opts (Some False) (Some ''123:abc'')"
      and w = "ex_widget False (Some ''123:abc'')" and kvs = ex_payload and d = 1700000000
      and nowMs = 1700000005000 and cr = toy_crypto]
  note T2 = signature_checked_only_when_enabled [where opts = "ex_w_opts None (Some ''123:abc'')"
      and w = "ex_widget True (Some ''123:abc'')" and kvs = ex_payload and d = 1700000000
      and nowMs = 1700000005000 and cr = toy_crypto and tok = "''123:abc''"]
  from T1 n1 o ex_req_all ex_date t
  have c1: "fst (wa_handleAuth toy_crypto (JObj ex_payload) 1700000005000 (ex_widget False (Some ''123:abc''))) = Inr True"
    by blast
  from T2 n1 o ex_req_all ex_date t
  have "fst (wa_handleAuth toy_crypto (JObj ex_payload) 1700000005000 (ex_widget True (Some ''123:abc''))) =
      Inr (JStr (hmac_sha256_hex toy_crypto (sha256 toy_crypto ''123:abc'') (dataCheckString ex_payload))
            = getProp (JObj ex_payload) ''hash'')"
    by blast
  with ex_hash
  have c2: "fst (wa_handleAuth toy_crypto (JObj ex_payload) 1700000005000 (ex_widget True (Some ''123:abc''))) = Inr False"
    by simp
  from n1 o ex_req_all ex_date t ex_hash c1 c2 show ?thesis
    by (simp add: list_all_iff)
qed

text \<open>
  Claim C7 at options without bot settings and without a bot token: the constructors of
  \<open>DeeplinkAuth\<close>, \<open>CodeAuth\<close> and \<open>TwoFAAuth\<close> throw, the constructor of
  \<open>WidgetAuth\<close> returns an object, and the first \<open>handleAuth\<close> of that object on a
  fresh, complete payload throws a \<open>TypeError\<close>.
\<close>

theorem widget_constructor_accepts_missing_credentials:
  "DeeplinkAuth_new ex_no_creds = Inl MissingBotCredentials
   \<and> CodeAuth_new ex_no_creds = Inl MissingBotCredentials
   \<and> TwoFAAuth_new ex_tf_no_creds = Inl MissingBotCredentials
   \<and> WidgetAuth_new (ex_w_opts None None) = Inr (ex_widget True None)
   \<and> fst (wa_handleAuth cr (JObj ex_payload) 1700000005000 (ex_widget True None)) = Inl TypeError"
proof -
  have "wa_validateSignature cr (wa_options (ex_widget True None)) ex_payload = Inl TypeError"
    by (simp add: wa_validateSignature_def Let_def ex_widget_def ex_w_opts_def)
  moreover have "validateSignature (wa_options (ex_widget True None)) = Some True"
    by (simp add: ex_widget_def ex_w_opts_def)
  ultimately have "fst (wa_handleAuth cr (JObj ex_payload) 1700000005000 (ex_widget True None)) = Inl TypeError"
    by (simp add: wa_handleAuth_def Let_def ex_req ex_date widget_expired_def)
  then show ?thesis
    by (simp add: DeeplinkAuth_new_def CodeAuth_new_def TwoFAAuth_new_def WidgetAuth_new_def
        resolveBotSettings_def ex_no_creds_def ex_tf_no_creds_def ex_w_opts_def ex_widget_def)
qed


section \<open>The session store\<close>

lemma ex_sm_eq:
  "ex_sm = \<lparr>sm_sessionLifetime = 1000, sm_sessions = [''s1'' \<mapsto> ex_session],
            sm_saved = [[''s1'' \<mapsto> ex_session]]\<rparr>"
  by (simp add: ex_sm_def createSession_def SessionManager_new_def saveSessions_def Let_def
      ex_session_def or_default_def)

text \<open>
  Claim C5 at a stored session that has not expired: \<open>getSession\<close> returns the session
  with the refreshed \<open>lastActivity\<close> and stores it in memory, but hands no snapshot to
  the persistent store, whose last snapshot still holds the old \<open>lastActivity\<close>.
  \<open>updateSession\<close>, and \<open>getSession\<close> on an expired session, do save their result.
\<close>

theorem getSession_refresh_not_persisted:
  "getSession ''s1'' 500 500 ex_sm =
     (Some (ex_session\<lparr>sm_lastActivity := 500\<rparr>),
      ex_sm\<lparr>sm_sessions := [''s1'' \<mapsto> ex_session\<lparr>sm_lastActivity := 500\<rparr>]\<rparr>)
   \<and> sm_saved (snd (getSession ''s1'' 500 500 ex_sm)) = sm_saved ex_sm
   \<and> last (sm_saved (snd (getSession ''s1'' 500 500 ex_sm))) ''s1'' = Some ex_session
   \<and> sm_sessions (snd (getSession ''s1'' 500 500 ex_sm)) ''s1'' \<noteq> Some ex_session
   \<and> last (sm_saved (snd (updateSession ''s1'' [] 500 ex_sm))) =
       sm_sessions (snd (updateSession ''s1'' [] 500 ex_sm))
   \<and> last (sm_saved (snd (getSession ''s1'' 1500 1500 ex_sm))) =
       sm_sessions (snd (getSession ''s1'' 1500 1500 ex_sm))"
  by (simp add: ex_sm_eq getSession_def updateSession_def saveSessions_def Let_def)
     (simp add: ex_session_def)

end
